theory Spec2Isabelle
  imports Main
begin

section \<open>Frames\<close>

text \<open>
  \<^verbatim>\<open>device.py\<close> starts with \<^verbatim>\<open>from .frame import *\<close>; the module
  \<^verbatim>\<open>frame.py\<close> (the enumerations \<^verbatim>\<open>UFrame\<close>, \<^verbatim>\<open>TYP\<close>, \<^verbatim>\<open>Cause\<close>, \<^verbatim>\<open>IECParam\<close> and
  the codec \<^verbatim>\<open>iec_104\<close>) is not part of the sources. The declarations below are what
  \<^verbatim>\<open>device.py\<close> uses of it, with the numeric values the specification gives.
\<close>

datatype UFrame = STARTDT_ACT | STARTDT_CON | STOPDT_ACT | STOPDT_CON | TESTFR_ACT | TESTFR_CON

text \<open>Modelled from the spec: \<^verbatim>\<open>UFrame\<close> of \<^verbatim>\<open>frame.py\<close> is an integer enumeration, so
  a member is equal to the integer that is its value. The value is the first control octet
  of the U-frame: scenario 1 of section 8 gives 0x07 for STARTDT_ACT and 0x0B for
  STARTDT_CON, the others are the octets of IEC 60870-5-104.\<close>

fun UFrame_value :: "UFrame \<Rightarrow> int" where
  "UFrame_value STARTDT_ACT = 7"
| "UFrame_value STARTDT_CON = 11"
| "UFrame_value STOPDT_ACT = 19"
| "UFrame_value STOPDT_CON = 35"
| "UFrame_value TESTFR_ACT = 67"
| "UFrame_value TESTFR_CON = 131"

text \<open>Modelled from the spec: \<^verbatim>\<open>Cause\<close> of \<^verbatim>\<open>frame.py\<close>, the causes of transmission of
  section 6 (\<open>act(6)\<close>, \<open>actcon(7)\<close>, \<open>actterm(10)\<close>, \<open>req(5)\<close>, \<open>spont(3)\<close>, \<open>introgen(20)\<close>,
  \<open>reqcogen(37)\<close>); every other member is \<open>other_cause\<close> with its number.\<close>

datatype Cause = spont | req | act | actcon | actterm | introgen | reqcogen | other_cause int

text \<open>Modelled from the spec: \<^verbatim>\<open>TYP\<close> of \<^verbatim>\<open>frame.py\<close>, an integer enumeration compared with
  \<open>\<le>\<close> in \<^verbatim>\<open>handle_i\<close>. The numbers are those of the table of section 6; \<open>M_EP_TD_1\<close> and
  \<open>C_SE_TC_1\<close>, which the table does not list, have their IEC 60870-5-104 numbers.\<close>

definition M_SP_NA_1 :: int where "M_SP_NA_1 = 1"
definition M_EP_TD_1 :: int where "M_EP_TD_1 = 38"
definition C_SC_NA_1 :: int where "C_SC_NA_1 = 45"
definition C_SE_TC_1 :: int where "C_SE_TC_1 = 63"
definition C_IC_NA_1 :: int where "C_IC_NA_1 = 100"
definition C_CI_NA_1 :: int where "C_CI_NA_1 = 101"
definition C_RD_NA_1 :: int where "C_RD_NA_1 = 102"
definition C_CS_NA_1 :: int where "C_CS_NA_1 = 103"

lemmas TYP_defs = M_SP_NA_1_def M_EP_TD_1_def C_SC_NA_1_def C_SE_TC_1_def
  C_IC_NA_1_def C_CI_NA_1_def C_RD_NA_1_def C_CS_NA_1_def

text \<open>Modelled from the spec: \<^verbatim>\<open>IECParam\<close> of \<^verbatim>\<open>frame.py\<close>. The members \<open>T1\<close>, \<open>T2\<close>,
  \<open>T3\<close> name the timers (\<open>T0\<close> is only the connect timeout); section 4.D gives
  T0=30s, T1=15s, T2=10s, T3=20s and section 4.C gives K=12, W=8.\<close>

datatype IECParam = T1 | T2 | T3

fun IECParam_value :: "IECParam \<Rightarrow> int" where
  "IECParam_value T1 = 15"
| "IECParam_value T2 = 10"
| "IECParam_value T3 = 20"

definition IECParam_T0 :: int where "IECParam_T0 = 30"
definition IECParam_K :: int where "IECParam_K = 12"
definition IECParam_W :: int where "IECParam_W = 8"

text \<open>
  One element of \<^verbatim>\<open>frame.ASDU.data\<close>. \<^verbatim>\<open>handle_i\<close> asks \<^verbatim>\<open>hasattr\<close> for \<open>IV\<close>,
  \<open>CP56Time2a\<close> and \<open>CP24Time2a\<close>, so every attribute is optional: \<open>None\<close> is an attribute
  the element does not have, and reading it raises \<^verbatim>\<open>AttributeError\<close>. Times are integers
  (microseconds), values are integers.
\<close>

record asdu_data =
  Address :: "int option"
  Value :: "int option"
  IV :: "int option"
  SE :: "int option"
  CP56Time2a :: "int option"
  CP24Time2a :: "int option"

record asdu =
  TYP :: int
  SQ :: int
  SQ_COUNT :: int
  Cause :: Cause
  StartAddress :: "int option"
  data :: "asdu_data list"

text \<open>
  \<^verbatim>\<open>frame.APCI1\<close> is a \<^verbatim>\<open>UFrame\<close> member for a U-frame, the string \<^verbatim>\<open>'S'\<close> for an
  S-frame and the peer's send sequence number for an I-frame; \<^verbatim>\<open>frame.APCI2\<close> is the
  peer's receive sequence number. Only an I-frame has an ASDU.
\<close>

datatype apci1 = U UFrame | S | I int

text \<open>\<^verbatim>\<open>apci1 == member\<close> for a member of \<^verbatim>\<open>UFrame\<close>: true of the member itself and of
  the send sequence number that is equal to its value, false of \<^verbatim>\<open>'S'\<close>.\<close>

fun eq_UFrame :: "apci1 \<Rightarrow> UFrame \<Rightarrow> bool" where
  "eq_UFrame (U v) u = (v = u)"
| "eq_UFrame S u = False"
| "eq_UFrame (I n) u = (n = UFrame_value u)"

record frame =
  APCI1 :: apci1
  APCI2 :: int
  ASDU :: "asdu option"

text \<open>Modelled from the spec: \<^verbatim>\<open>iec_104.init_frame\<close> of \<^verbatim>\<open>frame.py\<close>, in the three ways
  \<^verbatim>\<open>device.py\<close> calls it: with a \<^verbatim>\<open>UFrame\<close>, with \<^verbatim>\<open>"S"\<close> and a receive number, and
  with send number, receive number, type and cause. The I-frame starts with one data
  element (\<^verbatim>\<open>prepare_call_frame\<close> assigns to \<^verbatim>\<open>frame.ASDU.data[0]\<close>).\<close>

definition init_frame_u :: "UFrame \<Rightarrow> frame" where
  "init_frame_u u = \<lparr>APCI1 = U u, APCI2 = 0, ASDU = None\<rparr>"

definition init_frame_s :: "int \<Rightarrow> frame" where
  "init_frame_s r = \<lparr>APCI1 = S, APCI2 = r, ASDU = None\<rparr>"

definition init_frame_i :: "int \<Rightarrow> int \<Rightarrow> int \<Rightarrow> Cause \<Rightarrow> frame" where
  "init_frame_i sn rn typ cause =
     \<lparr>APCI1 = I sn, APCI2 = rn,
      ASDU = Some \<lparr>TYP = typ, SQ = 0, SQ_COUNT = 1, Cause = cause, StartAddress = None,
                   data = [\<lparr>Address = Some 0, Value = Some 0, IV = None, SE = Some 0,
                            CP56Time2a = None, CP24Time2a = None\<rparr>]\<rparr>\<rparr>"

section \<open>The event loop and the stream writer\<close>

text \<open>
  \<^verbatim>\<open>io_loop.call_later(delay, callback)\<close> and \<^verbatim>\<open>io_loop.call_soon(callback)\<close> return a
  handle; the device keeps handles in its attributes and cancels them. The loop is the list
  of all handles ever made, a handle is its index, and \<^verbatim>\<open>handle.cancel()\<close> sets the flag of
  that entry. \<^verbatim>\<open>io_loop.create_task(coro)\<close> appends the coroutine call to the list of tasks.
\<close>

datatype callback = CB_reconnect | CB_on_timer IECParam | CB_run_task

record handle =
  delay :: int
  callback :: callback
  cancelled :: bool

datatype task =
    Task_reconnect
  | Task_receive
  | Task_run_task
  | Task_save_frame frame bool
  | Task_send_frame frame
  | Task_check_to_send frame

text \<open>
  The \<^verbatim>\<open>StreamWriter\<close>: the frames written so far (\<^verbatim>\<open>iec_104.build_isu\<close> is the missing
  codec, so the wire holds the frame as it was when written), and whether the writer has
  been closed. \<^verbatim>\<open>write\<close> followed by \<^verbatim>\<open>drain\<close> on a closed writer raises.
\<close>

record stream_writer =
  sent :: "frame list"
  closing :: bool

section \<open>The device\<close>

text \<open>
  The attributes of \<^verbatim>\<open>IEC104Device\<close>. \<open>t1\<close>, \<open>t2\<close>, \<open>t3\<close> are the attributes that
  \<^verbatim>\<open>start_timer\<close> and \<^verbatim>\<open>stop_timer\<close> reach with \<^verbatim>\<open>setattr\<close>/\<^verbatim>\<open>getattr\<close> (\<open>None\<close> is both
  "no such attribute" and the value \<^verbatim>\<open>None\<close>; \<^verbatim>\<open>stop_timer\<close> treats them alike).
  \<open>connected\<close> and \<open>processed\<close> belong to \<^verbatim>\<open>BaseDevice\<close>. Times are integers (microseconds),
  and so are time differences.
\<close>

record device =
  coll_interval :: int
  ssn :: int
  rsn :: int
  k :: int
  w :: int
  send_list :: "frame list"
  last_call_all_time_begin :: "int option"
  last_call_all_time_end :: "int option"
  connect_retry_count :: int
  user_canceled :: bool
  writer :: "stream_writer option"
  reconnect_handler :: "nat option"
  task_handler :: "nat option"
  receive_handler :: "task option"
  t1 :: "nat option"
  t2 :: "nat option"
  t3 :: "nat option"
  connected :: bool
  processed :: "((int \<times> int \<times> int) set \<times> string) list"
  handles :: "handle list"
  tasks :: "task list"

definition call_later :: "int \<Rightarrow> callback \<Rightarrow> device \<Rightarrow> nat \<times> device" where
  "call_later d cb s =
     (length (handles s),
      s\<lparr>handles := handles s @ [\<lparr>delay = d, callback = cb, cancelled = False\<rparr>]\<rparr>)"

definition call_soon :: "callback \<Rightarrow> device \<Rightarrow> nat \<times> device" where
  "call_soon cb s = call_later 0 cb s"

definition cancel :: "nat \<Rightarrow> device \<Rightarrow> device" where
  "cancel h s =
     (if h < length (handles s)
      then s\<lparr>handles := (handles s)[h := (handles s ! h)\<lparr>cancelled := True\<rparr>]\<rparr>
      else s)"

definition create_task :: "task \<Rightarrow> device \<Rightarrow> device" where
  "create_task t s = s\<lparr>tasks := tasks s @ [t]\<rparr>"

text \<open>\<^verbatim>\<open>__init__\<close>: the counters are zero, the queue is empty, and the first reconnect is
  scheduled with \<^verbatim>\<open>call_soon\<close>.\<close>

definition init_device :: device where
  "init_device =
     \<lparr>coll_interval = 15 * 60 * 1000000, ssn = 0, rsn = 0, k = 0, w = 0, send_list = [],
      last_call_all_time_begin = None, last_call_all_time_end = None,
      connect_retry_count = 0, user_canceled = False, writer = None,
      reconnect_handler = Some 0, task_handler = None, receive_handler = None,
      t1 = None, t2 = None, t3 = None, connected = False, processed = [],
      handles = [\<lparr>delay = 0, callback = CB_reconnect, cancelled = False\<rparr>], tasks = []\<rparr>"

text \<open>Modelled from the spec: \<^verbatim>\<open>BaseDevice.change_device_status\<close> is not part of the
  sources; it records whether the device is on line, which \<^verbatim>\<open>disconnect\<close> reads as
  \<^verbatim>\<open>self.connected\<close>.\<close>

definition change_device_status :: "bool \<Rightarrow> device \<Rightarrow> device" where
  "change_device_status on_line s = s\<lparr>connected := on_line\<rparr>"

text \<open>Modelled from the spec: \<^verbatim>\<open>BaseDevice.process_data\<close> is not part of the sources; it
  receives the set of triples and the method (section 4.G, steps 5 to 7). The model records
  the call.\<close>

definition process_data :: "(int \<times> int \<times> int) set \<Rightarrow> string \<Rightarrow> device \<Rightarrow> device" where
  "process_data data_pairs method s = s\<lparr>processed := processed s @ [(data_pairs, method)]\<rparr>"

subsection \<open>Timers\<close>

fun get_timer :: "IECParam \<Rightarrow> device \<Rightarrow> nat option" where
  "get_timer T1 s = t1 s"
| "get_timer T2 s = t2 s"
| "get_timer T3 s = t3 s"

fun set_timer :: "IECParam \<Rightarrow> nat option \<Rightarrow> device \<Rightarrow> device" where
  "set_timer T1 h s = s\<lparr>t1 := h\<rparr>"
| "set_timer T2 h s = s\<lparr>t2 := h\<rparr>"
| "set_timer T3 h s = s\<lparr>t3 := h\<rparr>"

definition stop_timer :: "IECParam \<Rightarrow> device \<Rightarrow> device" where
  "stop_timer timer_id s =
     (case get_timer timer_id s of
        None \<Rightarrow> s
      | Some timeout_handler \<Rightarrow> set_timer timer_id None (cancel timeout_handler s))"

definition start_timer :: "IECParam \<Rightarrow> device \<Rightarrow> device" where
  "start_timer timer_id s =
     (let (h, s') = call_later (IECParam_value timer_id) (CB_on_timer timer_id)
                      (stop_timer timer_id s)
      in set_timer timer_id (Some h) s')"

subsection \<open>Sequence numbers\<close>

definition inc_ssn :: "device \<Rightarrow> device" where
  "inc_ssn s = s\<lparr>ssn := (if ssn s < 32767 then ssn s + 1 else 0)\<rparr>"

definition inc_rsn :: "device \<Rightarrow> device" where
  "inc_rsn s = s\<lparr>rsn := (if rsn s < 32767 then rsn s + 1 else 0)\<rparr>"

subsection \<open>disconnect\<close>

text \<open>
  \<^verbatim>\<open>disconnect(reconnect=False)\<close>. The line
  \<^verbatim>\<open>self.receive_handler and asyncio.wait_for(self.receive_handler, 0.5)\<close> builds a coroutine
  that nobody awaits: it changes nothing.
\<close>

definition writer_close :: "device \<Rightarrow> device" where
  "writer_close s =
     (case writer s of None \<Rightarrow> s | Some wr \<Rightarrow> s\<lparr>writer := Some (wr\<lparr>closing := True\<rparr>)\<rparr>)"

definition disconnect_handler :: "bool \<Rightarrow> device \<Rightarrow> device" where
  "disconnect_handler reconnect s =
     (if \<not> reconnect then
        (let s' = s\<lparr>user_canceled := True\<rparr>
         in case reconnect_handler s' of None \<Rightarrow> s' | Some h \<Rightarrow> cancel h s')
      else if reconnect_handler s = None then
        (let (h, s') = call_later 3 CB_reconnect s
         in s'\<lparr>reconnect_handler := Some h,
               connect_retry_count := connect_retry_count s' + 1\<rparr>)
      else s)"

definition disconnect :: "bool \<Rightarrow> device \<Rightarrow> device" where
  "disconnect reconnect s =
     (let s1 = disconnect_handler reconnect s;
          s2 = stop_timer T3 (stop_timer T2 (stop_timer T1 s1));
          s3 = writer_close s2;
          s4 = (if connected s3 then change_device_status False s3 else s3)
      in s4\<lparr>ssn := 0, rsn := 0, k := 0, w := 0, send_list := []\<rparr>)"

subsection \<open>send_frame\<close>

text \<open>
  A Python exception is a value: \<open>Inl (e, s)\<close> is the exception \<open>e\<close> raised when the
  device was in state \<open>s\<close>, \<open>Inr s\<close> is the normal end. Every coroutine of the device but
  \<^verbatim>\<open>run_task\<close> wraps its body in \<^verbatim>\<open>try\<close> and answers any exception with
  \<^verbatim>\<open>self.disconnect(reconnect=True)\<close>.
\<close>

datatype py_error = AttributeError | IndexError | ConnectionResetError | TypeError | EncodeError

text \<open>Modelled from the spec: \<^verbatim>\<open>iec_104.build_isu\<close> of \<^verbatim>\<open>frame.py\<close>, the encoder. The
  sequence numbers of an S- and an I-frame are 15-bit fields (sections 3 and 4.A: the
  16-bit words hold \<open>ssn << 1\<close> and \<open>rsn << 1\<close>), so a number outside 0..32767 cannot be
  encoded and the encoder raises; a U-frame is always encoded. What is encoded is the
  frame as it is at that moment.\<close>

definition seq_ok :: "int \<Rightarrow> bool" where
  "seq_ok n \<longleftrightarrow> 0 \<le> n \<and> n < 32768"

definition encodable :: "frame \<Rightarrow> bool" where
  "encodable f =
     (case APCI1 f of
        U u \<Rightarrow> True
      | S \<Rightarrow> seq_ok (APCI2 f)
      | I n \<Rightarrow> seq_ok n \<and> seq_ok (APCI2 f))"

definition build_isu :: "frame \<Rightarrow> py_error + frame" where
  "build_isu f = (if encodable f then Inr f else Inl EncodeError)"

definition writer_write :: "frame \<Rightarrow> device \<Rightarrow> py_error \<times> device + device" where
  "writer_write f s =
     (case writer s of
        None \<Rightarrow> Inl (AttributeError, s)
      | Some wr \<Rightarrow>
          if closing wr then Inl (ConnectionResetError, s)
          else Inr (s\<lparr>writer := Some (wr\<lparr>sent := sent wr @ [f]\<rparr>)\<rparr>))"

text \<open>\<^verbatim>\<open>encode_frame = iec_104.build_isu(frame); self.writer.write(encode_frame);
  await self.writer.drain()\<close>.\<close>

definition encode_write :: "frame \<Rightarrow> device \<Rightarrow> py_error \<times> device + device" where
  "encode_write f s =
     (case build_isu f of
        Inl e \<Rightarrow> Inl (e, s)
      | Inr encode_frame \<Rightarrow> writer_write encode_frame s)"

definition catch_disconnect :: "py_error \<times> device + device \<Rightarrow> device" where
  "catch_disconnect r = (case r of Inl (e, s) \<Rightarrow> disconnect True s | Inr s \<Rightarrow> s)"

definition asdu_cause :: "frame \<Rightarrow> Cause option" where
  "asdu_cause frame = map_option Cause (ASDU frame)"

definition send_list_append :: "frame \<Rightarrow> device \<Rightarrow> device" where
  "send_list_append frame s = s\<lparr>send_list := send_list s @ [frame]\<rparr>"

text \<open>The branch \<^verbatim>\<open>frame.APCI1 == "S"\<close>.\<close>

definition send_s :: "frame \<Rightarrow> device \<Rightarrow> py_error \<times> device + device" where
  "send_s frame s =
     (let s1 = stop_timer T2 s;
          frame' = frame\<lparr>APCI2 := rsn s1\<rparr>
      in case encode_write frame' s1 of
           Inl e \<Rightarrow> Inl e
         | Inr s2 \<Rightarrow> Inr (create_task (Task_save_frame frame' True) (s2\<lparr>w := 0\<rparr>)))"

text \<open>The branch \<^verbatim>\<open>isinstance(frame.APCI1, UFrame)\<close>.\<close>

definition send_u :: "UFrame \<Rightarrow> frame \<Rightarrow> bool \<Rightarrow> device \<Rightarrow> py_error \<times> device + device" where
  "send_u u frame check s =
     (if \<not> check \<or> send_list s = [] then
        (case encode_write frame s of
           Inl e \<Rightarrow> Inl e
         | Inr s1 \<Rightarrow>
             let s2 = (if u = STARTDT_ACT \<or> u = TESTFR_ACT then start_timer T1 s1 else s1);
                 s3 = (if check \<and> (u = STARTDT_ACT \<or> u = TESTFR_ACT)
                       then send_list_append frame s2 else s2)
             in Inr (create_task (Task_save_frame frame True) s3))
      else Inr (if check \<and> (u = STARTDT_ACT \<or> u = TESTFR_ACT)
                then send_list_append frame s else s))"

text \<open>
  The branch of an I-frame. The frame object is stamped in place before it is written, so
  the frame that goes into \<open>send_list\<close> after a write is the stamped one.
\<close>

definition send_i_write :: "frame \<Rightarrow> bool \<Rightarrow> device \<Rightarrow> py_error \<times> device + device" where
  "send_i_write frame check s =
     (let s1 = stop_timer T2 s;
          frame' = frame\<lparr>APCI1 := I (ssn s1), APCI2 := rsn s1\<rparr>
      in case encode_write frame' s1 of
           Inl e \<Rightarrow> Inl e
         | Inr s2 \<Rightarrow>
             (let s3 = inc_ssn s2;
                  s4 = s3\<lparr>k := k s3 + 1, w := 0\<rparr>
              in (case asdu_cause frame' of
                    None \<Rightarrow> Inl (AttributeError, s4)
                  | Some c \<Rightarrow>
                      (let s5 = (if c = act then start_timer T1 s4 else s4);
                           s6 = (if check \<and> c = act then send_list_append frame' s5 else s5)
                       in Inr (create_task (Task_save_frame frame' True) s6)))))"

definition send_i :: "frame \<Rightarrow> bool \<Rightarrow> device \<Rightarrow> py_error \<times> device + device" where
  "send_i frame check s =
     (if \<not> check \<or> send_list s = [] then send_i_write frame check s
      else case asdu_cause frame of
             None \<Rightarrow> Inl (AttributeError, s)
           | Some c \<Rightarrow>
               if c \<noteq> act then send_i_write frame check s
               else Inr (if check then send_list_append frame s else s))"

definition send_frame :: "frame option \<Rightarrow> bool \<Rightarrow> device \<Rightarrow> device" where
  "send_frame fo check s =
     (case fo of
        None \<Rightarrow> s
      | Some frame \<Rightarrow>
          catch_disconnect
            (case APCI1 frame of
               S \<Rightarrow> send_s frame s
             | U u \<Rightarrow> send_u u frame check s
             | I n \<Rightarrow> send_i frame check s))"

subsection \<open>check_to_send\<close>

text \<open>
  \<^verbatim>\<open>await self.send_frame(self.send_list[0] if self.send_list else None, check=False)\<close>:
  the head of the queue is sent again. \<^verbatim>\<open>send_frame\<close> stamps the object that is the head
  of the queue, so the head is the stamped frame afterwards (when the queue survived).
\<close>

definition stamp :: "frame \<Rightarrow> device \<Rightarrow> frame" where
  "stamp frame s =
     (case APCI1 frame of
        S \<Rightarrow> frame\<lparr>APCI2 := rsn s\<rparr>
      | U u \<Rightarrow> frame
      | I n \<Rightarrow> frame\<lparr>APCI1 := I (ssn s), APCI2 := rsn s\<rparr>)"

definition send_head :: "device \<Rightarrow> device" where
  "send_head s =
     (case send_list s of
        [] \<Rightarrow> send_frame None False s
      | head # rest \<Rightarrow>
          (let s' = send_frame (Some head) False s
           in case send_list s' of
                [] \<Rightarrow> s'
              | head' # rest' \<Rightarrow> s'\<lparr>send_list := stamp head s # rest'\<rparr>))"

definition check_to_send_try :: "frame option \<Rightarrow> device \<Rightarrow> py_error \<times> device + device" where
  "check_to_send_try fo s =
     (let s1 = stop_timer T1 s
      in case fo of
           None \<Rightarrow> Inr s1
         | Some frame \<Rightarrow>
             (case send_list s1 of
                [] \<Rightarrow> Inr s1
              | head # rest \<Rightarrow>
                  if APCI1 frame = U STARTDT_CON \<or> APCI1 frame = U TESTFR_CON
                     \<or> APCI1 frame = U STOPDT_CON
                  then Inr (send_head (s1\<lparr>send_list := rest\<rparr>))
                  else
                    (case ASDU frame of
                       None \<Rightarrow> Inl (AttributeError, s1)
                     | Some a \<Rightarrow>
                         (case ASDU head of
                            None \<Rightarrow> Inl (AttributeError, s1)
                          | Some ha \<Rightarrow>
                              if TYP a = TYP ha \<or> (Cause a = req \<and> TYP ha = C_RD_NA_1)
                              then Inr (send_head (s1\<lparr>send_list := rest\<rparr>))
                              else Inr s1))))"

definition check_to_send :: "frame option \<Rightarrow> device \<Rightarrow> device" where
  "check_to_send fo s = catch_disconnect (check_to_send_try fo s)"

subsection \<open>handle_i\<close>

text \<open>
  The loop over \<^verbatim>\<open>frame.ASDU.data\<close>. \<open>idx\<close> and the triples collected so far are the
  loop's variables; \<^verbatim>\<open>continue\<close> goes to the next element with both unchanged. Reading
  an attribute that the element (or the ASDU) does not have raises. \<open>now\<close> stands for
  \<^verbatim>\<open>datetime.datetime.now()\<close>. \<^verbatim>\<open>data_pairs\<close> is a Python set: \<^verbatim>\<open>handle_i\<close> passes the
  set of the collected triples on.
\<close>

definition data_time :: "asdu_data \<Rightarrow> int \<Rightarrow> int" where
  "data_time d now =
     (case CP56Time2a d of
        Some t \<Rightarrow> t
      | None \<Rightarrow> (case CP24Time2a d of Some t \<Rightarrow> t | None \<Rightarrow> now))"

fun data_loop ::
  "asdu \<Rightarrow> int \<Rightarrow> asdu_data list \<Rightarrow> int \<Rightarrow> (int \<times> int \<times> int) list
     \<Rightarrow> py_error + (int \<times> int \<times> int) list" where
  "data_loop a now [] idx data_pairs = Inr data_pairs"
| "data_loop a now (d # ds) idx data_pairs =
     (if (case IV d of None \<Rightarrow> False | Some iv \<Rightarrow> iv \<noteq> 0)
      then data_loop a now ds idx data_pairs
      else
        (case (if SQ a = 0 then Address d
               else map_option (\<lambda>start. start + idx) (StartAddress a)) of
           None \<Rightarrow> Inl AttributeError
         | Some data_addr \<Rightarrow>
             (case Value d of
                None \<Rightarrow> Inl AttributeError
              | Some v \<Rightarrow>
                  data_loop a now ds (idx + 1)
                    (data_pairs @ [(data_time d now, data_addr, v)]))))"

definition data0_SE :: "asdu \<Rightarrow> py_error + int" where
  "data0_SE a =
     (case data a of
        [] \<Rightarrow> Inl IndexError
      | d # ds \<Rightarrow> (case SE d of None \<Rightarrow> Inl AttributeError | Some se \<Rightarrow> Inr se))"

text \<open>The condition of the first \<^verbatim>\<open>if\<close> of the dispatch, evaluated left to right;
  \<^verbatim>\<open>frame.ASDU.data[0].SE\<close> is read only when the cause and the type have passed.\<close>

definition is_measurement :: "asdu \<Rightarrow> py_error + bool" where
  "is_measurement a =
     (if Cause a = spont \<or> Cause a = introgen \<or> Cause a = reqcogen then Inr True
      else if Cause a = req \<and> M_SP_NA_1 \<le> TYP a \<and> TYP a \<le> M_EP_TD_1 then Inr True
      else if Cause a = actcon \<and> C_SC_NA_1 \<le> TYP a \<and> TYP a \<le> C_SE_TC_1
      then (case data0_SE a of Inl e \<Rightarrow> Inl e | Inr se \<Rightarrow> Inr (se = 0))
      else Inr False)"

definition method_of :: "Cause \<Rightarrow> string" where
  "method_of c = (if c = req then ''call'' else if c = actcon then ''ctrl'' else ''data'')"

text \<open>The frame sent back after a confirmed select: the received frame with
  \<^verbatim>\<open>Cause = act\<close> and \<^verbatim>\<open>data[0].SE = 0\<close>.\<close>

definition execute_frame :: "frame \<Rightarrow> asdu \<Rightarrow> frame" where
  "execute_frame frame a =
     frame\<lparr>ASDU := Some (a\<lparr>Cause := act,
                            data := (case data a of
                                       [] \<Rightarrow> []
                                     | d # ds \<Rightarrow> d\<lparr>SE := Some 0\<rparr> # ds)\<rparr>)\<rparr>"

definition dispatch_i :: "frame \<Rightarrow> asdu \<Rightarrow> int \<Rightarrow> device \<Rightarrow> py_error \<times> device + device" where
  "dispatch_i frame a now s =
     (case is_measurement a of
        Inl e \<Rightarrow> Inl (e, s)
      | Inr True \<Rightarrow>
          (case data_loop a now (data a) 0 [] of
             Inl e \<Rightarrow> Inl (e, s)
           | Inr data_pairs \<Rightarrow> Inr (process_data (set data_pairs) (method_of (Cause a)) s))
      | Inr False \<Rightarrow>
          if Cause a = actcon then
            (if C_SC_NA_1 \<le> TYP a \<and> TYP a \<le> C_SE_TC_1
             then (case data0_SE a of
                     Inl e \<Rightarrow> Inl (e, s)
                   | Inr se \<Rightarrow>
                       Inr (if se = 1 then send_frame (Some (execute_frame frame a)) True s
                            else s))
             else Inr s)
          else if Cause a = actterm then
            Inr (if TYP a = C_CI_NA_1 then s\<lparr>last_call_all_time_end := Some now\<rparr> else s)
          else Inr s)"

definition handle_i_try :: "frame \<Rightarrow> int \<Rightarrow> device \<Rightarrow> py_error \<times> device + device" where
  "handle_i_try frame now s =
     (let s1 = start_timer T2 s
      in case ASDU frame of
           None \<Rightarrow> Inl (AttributeError, s1)
         | Some a \<Rightarrow>
             (let s2 = (if w s1 \<ge> IECParam_W
                        then send_frame (Some (init_frame_s (rsn s1))) True s1 else s1);
                  s3 = (if Cause a = actcon \<or> Cause a = req
                        then create_task (Task_check_to_send frame) (stop_timer T1 s2) else s2)
              in dispatch_i frame a now s3))"

definition handle_i :: "frame \<Rightarrow> int \<Rightarrow> device \<Rightarrow> device" where
  "handle_i frame now s = catch_disconnect (handle_i_try frame now s)"

subsection \<open>handle_u\<close>

text \<open>\<^verbatim>\<open>if self.send_list and self.send_list[0].APCI1 == u: popleft; stop_timer(T1)\<close>.
  The head of the queue may be an I-frame: its \<^verbatim>\<open>APCI1\<close> is the send number it was
  stamped with, which \<^verbatim>\<open>==\<close> compares with the value of the member.\<close>

definition drop_own :: "UFrame \<Rightarrow> device \<Rightarrow> device" where
  "drop_own u s =
     (case send_list s of
        [] \<Rightarrow> s
      | head # rest \<Rightarrow>
          if eq_UFrame (APCI1 head) u then stop_timer T1 (s\<lparr>send_list := rest\<rparr>) else s)"

fun handle_u_try :: "UFrame \<Rightarrow> frame \<Rightarrow> device \<Rightarrow> device" where
  "handle_u_try STARTDT_ACT frame s =
     create_task (Task_check_to_send frame)
       (create_task Task_run_task
          (send_frame (Some (init_frame_u STARTDT_CON)) True (drop_own STARTDT_ACT s)))"
| "handle_u_try STARTDT_CON frame s =
     create_task (Task_check_to_send frame) (create_task Task_run_task s)"
| "handle_u_try TESTFR_ACT frame s =
     send_frame (Some (init_frame_u TESTFR_CON)) True (drop_own TESTFR_ACT s)"
| "handle_u_try TESTFR_CON frame s = create_task (Task_check_to_send frame) s"
| "handle_u_try STOPDT_ACT frame s =
     disconnect False (send_frame (Some (init_frame_u STOPDT_CON)) True s)"
| "handle_u_try STOPDT_CON frame s = disconnect False (stop_timer T1 s)"

definition handle_u :: "frame \<Rightarrow> device \<Rightarrow> device" where
  "handle_u frame s =
     (case APCI1 frame of
        U u \<Rightarrow> handle_u_try u frame s
      | _ \<Rightarrow> disconnect True s)"

subsection \<open>receive\<close>

text \<open>
  What the two \<^verbatim>\<open>readexactly\<close> calls and the two parsers give: a frame, or one of the
  exceptions that \<^verbatim>\<open>receive\<close> distinguishes. \<open>Read_bad_head\<close> is any other exception
  raised before \<^verbatim>\<open>start_timer(T3)\<close> (by \<^verbatim>\<open>iec_head.parse\<close>), \<open>Read_bad_frame\<close> one raised
  by \<^verbatim>\<open>iec_104.parse\<close>, after the timer and the next receive task.
\<close>

datatype read_result =
    Read_frame frame
  | Read_incomplete
  | Read_reset
  | Read_bad_head
  | Read_bad_frame

text \<open>The sequence check of an S- or I-frame: \<open>bad_frame\<close> and the counters.\<close>

definition check_seq :: "frame \<Rightarrow> device \<Rightarrow> bool \<times> device" where
  "check_seq frame s =
     (let (bad1, s1) = (if ssn s < APCI2 frame then (True, s)
                        else (False, s\<lparr>k := ssn s - APCI2 frame\<rparr>))
      in case APCI1 frame of
           I n \<Rightarrow>
             if rsn s1 \<noteq> n then (True, s1)
             else (bad1, s1\<lparr>rsn := rsn s1 + 1, w := w s1 + 1\<rparr>)
         | _ \<Rightarrow> (bad1, s1))"

definition receive_frame :: "frame \<Rightarrow> int \<Rightarrow> device \<Rightarrow> device" where
  "receive_frame frame now s =
     (case APCI1 frame of
        U u \<Rightarrow> handle_u frame s
      | _ \<Rightarrow>
          (let (bad_frame, s1) = check_seq frame s
           in if bad_frame
              then (if reconnect_handler s1 = None then disconnect True s1 else s1)
              else if APCI1 frame \<noteq> S then handle_i frame now s1
              else s1))"

definition receive_started :: "device \<Rightarrow> device" where
  "receive_started s =
     (create_task Task_receive (start_timer T3 s))\<lparr>receive_handler := Some Task_receive\<rparr>"

fun receive :: "read_result \<Rightarrow> int \<Rightarrow> device \<Rightarrow> device" where
  "receive (Read_frame frame) now s =
     receive_frame frame now (create_task (Task_save_frame frame False) (receive_started s))"
| "receive Read_incomplete now s =
     (if user_canceled s then s
      else if reconnect_handler s \<noteq> None then s
      else disconnect True s)"
| "receive Read_reset now s = disconnect True s"
| "receive Read_bad_head now s = disconnect True s"
| "receive Read_bad_frame now s = disconnect True (receive_started s)"

subsection \<open>Timer callbacks, reconnect, run_task\<close>

fun on_timer :: "IECParam \<Rightarrow> device \<Rightarrow> device" where
  "on_timer T1 s =
     (if reconnect_handler s = None
      then (let (h, s') = call_soon CB_reconnect s in s'\<lparr>reconnect_handler := Some h\<rparr>)
      else s)"
| "on_timer T2 s = create_task (Task_send_frame (init_frame_s (rsn s))) s"
| "on_timer T3 s = create_task (Task_send_frame (init_frame_u TESTFR_ACT)) s"

text \<open>What \<^verbatim>\<open>asyncio.wait_for(asyncio.open_connection(...), timeout=IECParam.T0)\<close> gives.\<close>

datatype conn_result = Conn_ok | Conn_timeout | Conn_failed

definition reconnect :: "conn_result \<Rightarrow> device \<Rightarrow> device" where
  "reconnect r s =
     (let s1 = s\<lparr>reconnect_handler := None, user_canceled := False\<rparr>
      in case r of
           Conn_timeout \<Rightarrow> disconnect True s1
         | Conn_failed \<Rightarrow> disconnect True s1
         | Conn_ok \<Rightarrow>
             (let s2 = s1\<lparr>writer := Some \<lparr>sent = [], closing = False\<rparr>\<rparr>;
                  s3 = change_device_status True s2;
                  s4 = (create_task Task_receive s3)\<lparr>receive_handler := Some Task_receive\<rparr>
              in send_frame (Some (init_frame_u STARTDT_ACT)) True s4))"

text \<open>\<^verbatim>\<open>timedelta.seconds\<close>: the seconds of the normalised difference, between 0 and
  86399; the days and the microseconds are not part of it.\<close>

definition timedelta_seconds :: "int \<Rightarrow> int" where
  "timedelta_seconds td = (td div 1000000) mod 86400"

definition call_all :: "int \<Rightarrow> device \<Rightarrow> device" where
  "call_all now s =
     (let s1 = s\<lparr>last_call_all_time_begin := Some now\<rparr>;
          s2 = send_frame (Some (init_frame_i (ssn s1) (rsn s1) C_CS_NA_1 act)) True s1;
          s3 = send_frame (Some (init_frame_i (ssn s2) (rsn s2) C_IC_NA_1 act)) True s2
      in send_frame (Some (init_frame_i (ssn s3) (rsn s3) C_CI_NA_1 act)) True s3)"

text \<open>The end of \<^verbatim>\<open>run_task\<close>: the handle of the last run is cancelled, then the next run
  is scheduled. \<^verbatim>\<open>run_task\<close> has no \<^verbatim>\<open>try\<close>: the \<^verbatim>\<open>TypeError\<close> of a missing
  \<open>last_call_all_time_end\<close> would end the task where it is.\<close>

definition rearm_task :: "int \<Rightarrow> device \<Rightarrow> device" where
  "rearm_task now s =
     (let s1 = (case task_handler s of None \<Rightarrow> s | Some h \<Rightarrow> cancel h s)
      in case last_call_all_time_end s1 of
           None \<Rightarrow> s1
         | Some t \<Rightarrow>
             (let (h, s2) = call_later (timedelta_seconds (t + coll_interval s1 - now))
                              CB_run_task s1
              in s2\<lparr>task_handler := Some h\<rparr>))"

definition run_task :: "int \<Rightarrow> device \<Rightarrow> device" where
  "run_task now s =
     (let end0 = (case last_call_all_time_end s of None \<Rightarrow> now | Some t \<Rightarrow> t);
          s1 = s\<lparr>last_call_all_time_end := Some end0\<rparr>;
          s2 = (if end0 + coll_interval s1 \<le> now then call_all now s1 else s1)
      in rearm_task now s2)"

subsection \<open>The session as a transition system\<close>

text \<open>
  Everything that makes the device run: a read of the receive task completes, a timer
  fires, the reconnect callback runs, the scheduler runs, a task made with
  \<^verbatim>\<open>create_task\<close> runs, or the owner of the device calls \<^verbatim>\<open>disconnect()\<close>.
\<close>

datatype event =
    Ev_receive read_result int
  | Ev_timer IECParam
  | Ev_reconnect conn_result
  | Ev_run_task int
  | Ev_send_frame frame
  | Ev_check_to_send frame
  | Ev_disconnect

fun step :: "event \<Rightarrow> device \<Rightarrow> device" where
  "step (Ev_receive r now) s = receive r now s"
| "step (Ev_timer timer_id) s = on_timer timer_id s"
| "step (Ev_reconnect r) s = reconnect r s"
| "step (Ev_run_task now) s = run_task now s"
| "step (Ev_send_frame frame) s = send_frame (Some frame) True s"
| "step (Ev_check_to_send frame) s = check_to_send (Some frame) s"
| "step Ev_disconnect s = disconnect False s"

fun run :: "event list \<Rightarrow> device \<Rightarrow> device" where
  "run [] s = s"
| "run (e # es) s = run es (step e s)"

section \<open>Handles, example states\<close>

text \<open>
  A handle of the device is valid when the loop knows it, and stopped when the loop knows
  it and it has been cancelled. \<open>handles_le s s'\<close>: the loop of \<open>s'\<close> extends the loop of
  \<open>s\<close>, and no handle of \<open>s\<close> has been revived or changed.
\<close>

definition valid_handle :: "nat option \<Rightarrow> device \<Rightarrow> bool" where
  "valid_handle ho s = (case ho of None \<Rightarrow> True | Some h \<Rightarrow> h < length (handles s))"

definition stopped :: "nat option \<Rightarrow> device \<Rightarrow> bool" where
  "stopped ho s =
     (case ho of None \<Rightarrow> True | Some h \<Rightarrow> h < length (handles s) \<and> cancelled (handles s ! h))"

definition handles_le :: "device \<Rightarrow> device \<Rightarrow> bool" where
  "handles_le s s' \<longleftrightarrow>
     length (handles s) \<le> length (handles s') \<and>
     (\<forall>i < length (handles s).
        delay (handles s' ! i) = delay (handles s ! i) \<and>
        callback (handles s' ! i) = callback (handles s ! i) \<and>
        (cancelled (handles s ! i) \<longrightarrow> cancelled (handles s' ! i)))"


text \<open>
  A session that has started: the first reconnect succeeds, the peer confirms STARTDT, the
  scheduler and \<^verbatim>\<open>check_to_send\<close> run. In \<open>busy_device\<close> the session has then sent a read
  command and received a spontaneous I-frame, so that T1, T2 and T3 are all armed.
\<close>

definition start_events :: "event list" where
  "start_events =
     [Ev_reconnect Conn_ok,
      Ev_receive (Read_frame (init_frame_u STARTDT_CON)) 0,
      Ev_run_task 0,
      Ev_check_to_send (init_frame_u STARTDT_CON)]"

definition started_device :: device where
  "started_device = run start_events init_device"

definition spont_frame :: "int \<Rightarrow> int \<Rightarrow> frame" where
  "spont_frame sn rn =
     \<lparr>APCI1 = I sn, APCI2 = rn,
      ASDU = Some \<lparr>TYP = M_SP_NA_1, SQ = 0, SQ_COUNT = 1, Cause = spont,
                   StartAddress = None,
                   data = [\<lparr>Address = Some 100, Value = Some 1, IV = Some 0, SE = None,
                            CP56Time2a = None, CP24Time2a = None\<rparr>]\<rparr>\<rparr>"

definition busy_device :: device where
  "busy_device =
     run [Ev_send_frame (init_frame_i 0 0 C_RD_NA_1 act),
          Ev_receive (Read_frame (spont_frame 0 1)) 1000] started_device"

text \<open>An I-frame with \<^verbatim>\<open>SQ = 1\<close> and start address 100: its first element is invalid
  (\<^verbatim>\<open>IV = 1\<close>), its second is valid and has the value 7.\<close>

definition sq_frame :: frame where
  "sq_frame =
     \<lparr>APCI1 = I 0, APCI2 = 0,
      ASDU = Some \<lparr>TYP = M_SP_NA_1, SQ = 1, SQ_COUNT = 2, Cause = spont,
                   StartAddress = Some 100,
                   data = [\<lparr>Address = None, Value = Some 5, IV = Some 1, SE = None,
                            CP56Time2a = None, CP24Time2a = None\<rparr>,
                           \<lparr>Address = None, Value = Some 7, IV = Some 0, SE = None,
                            CP56Time2a = None, CP24Time2a = None\<rparr>]\<rparr>\<rparr>"

section \<open>The API server: create_term\<close>

text \<open>
  \<^verbatim>\<open>APIServer.create_term\<close> of \<^verbatim>\<open>api_server.py\<close> works on the Redis store: hashes
  (\<^verbatim>\<open>hmset\<close>), sets (\<^verbatim>\<open>sadd\<close>) and the messages published so far (\<^verbatim>\<open>publish\<close>), each
  with its channel. \<^verbatim>\<open>json.loads\<close> is a parameter; the dictionary it returns is a list of
  keys with their values as \<^verbatim>\<open>format\<close> prints them, \<open>None\<close> is the exception it raises.
  A missing key raises \<^verbatim>\<open>KeyError\<close>; every exception ends in the answer 400, with the
  store as it was when the exception was raised. The answer is the HTTP status.
\<close>

record redis =
  hashes :: "string \<Rightarrow> (string \<times> string) list option"
  sets :: "string \<Rightarrow> string set"
  published :: "(string \<times> string) list"

definition exists_key :: "string \<Rightarrow> redis \<Rightarrow> bool" where
  "exists_key key r \<longleftrightarrow> hashes r key \<noteq> None \<or> sets r key \<noteq> {}"

definition hmset :: "string \<Rightarrow> (string \<times> string) list \<Rightarrow> redis \<Rightarrow> redis" where
  "hmset key mapping r =
     r\<lparr>hashes := (hashes r)(key \<mapsto> mapping @ (case hashes r key of None \<Rightarrow> [] | Some old \<Rightarrow> old))\<rparr>"

definition sadd :: "string \<Rightarrow> string \<Rightarrow> redis \<Rightarrow> redis" where
  "sadd key member r = r\<lparr>sets := (sets r)(key := insert member (sets r key))\<rparr>"

definition publish :: "string \<Rightarrow> string \<Rightarrow> redis \<Rightarrow> redis" where
  "publish channel message r = r\<lparr>published := published r @ [(channel, message)]\<rparr>"

definition create_term ::
  "(string \<Rightarrow> (string \<times> string) list option) \<Rightarrow> string \<Rightarrow> redis \<Rightarrow> int \<times> redis" where
  "create_term json_loads term_data r =
     (case json_loads term_data of
        None \<Rightarrow> (400, r)
      | Some term_dict \<Rightarrow>
          (case map_of term_dict ''id'' of
             None \<Rightarrow> (400, r)
           | Some term_id \<Rightarrow>
               if exists_key (''HS:TERM:'' @ term_id) r then (409, r)
               else
                 (let r1 = hmset (''HS:TERM:'' @ term_id) term_dict r;
                      r2 = sadd ''SET:TERM'' term_id r1
                  in case map_of term_dict ''device_id'' of
                       None \<Rightarrow> (400, r2)
                     | Some device_id \<Rightarrow>
                         (200, publish (''CHANNEL:TERM_ADD'' @ [CHR 0x22]) term_data
                                 (sadd (''SET:DEVICE_TERM:'' @ device_id) term_id r2)))))"

definition empty_redis :: redis where
  "empty_redis = \<lparr>hashes = (\<lambda>key. None), sets = (\<lambda>key. {}), published = []\<rparr>"

definition term_body :: string where
  \<open>term_body = ''{"id": "7", "device_id": "1"}''\<close>

definition term_loads :: "string \<Rightarrow> (string \<times> string) list option" where
  "term_loads body =
     (if body = term_body then Some [(''id'', ''7''), (''device_id'', ''1'')] else None)"

text \<open>A session whose send sequence number wraps: with \<open>ssn = 32767\<close> it sends a read
  command, which gets the send number 32767, and \<^verbatim>\<open>inc_ssn\<close> takes \<open>ssn\<close> to 0. One I-frame
  is not acknowledged yet.\<close>

definition wrapped_device :: device where
  "wrapped_device =
     run [Ev_send_frame (init_frame_i 32767 0 C_RD_NA_1 act)]
       (started_device\<lparr>ssn := 32767\<rparr>)"

text \<open>The state in which an exception was raised, or the state of the normal end.\<close>

definition res_state :: "py_error \<times> device + device \<Rightarrow> device" where
  "res_state r = (case r of Inl (e, s) \<Rightarrow> s | Inr s \<Rightarrow> s)"


text \<open>The first connection attempt fails, the second succeeds and the session starts.\<close>

definition retried_events :: "event list" where
  "retried_events = Ev_reconnect Conn_failed # start_events"

text \<open>The reconnect handle of the device is known to the loop.\<close>

definition rh_valid :: "device \<Rightarrow> bool" where
  "rh_valid s = valid_handle (reconnect_handler s) s"


text \<open>\<open>busy_device\<close> after T1 has expired: \<^verbatim>\<open>on_timer1\<close> has scheduled a reconnect with
  \<^verbatim>\<open>call_soon\<close>, which has not run yet.\<close>

definition pending_device :: device where
  "pending_device = run [Ev_timer T1] busy_device"

text \<open>
  \<open>w_kept s s'\<close>: \<open>w\<close> is what it was or has been reset. \<open>sent_of\<close> is what the writer
  has written, \<open>written s s'\<close> what it has written between \<open>s\<close> and \<open>s'\<close>, \<open>s_frames\<close> the
  S-frames of a list; \<open>sent_ext s s'\<close>: no S-frame has been written between \<open>s\<close> and \<open>s'\<close>.
  A writer is open when it exists and has not been closed.
\<close>

definition w_kept :: "device \<Rightarrow> device \<Rightarrow> bool" where
  "w_kept s s' \<longleftrightarrow> w s' = w s \<or> w s' = 0"

definition sent_of :: "device \<Rightarrow> frame list" where
  "sent_of s = (case writer s of None \<Rightarrow> [] | Some wr \<Rightarrow> sent wr)"

definition sent_ext :: "device \<Rightarrow> device \<Rightarrow> bool" where
  "sent_ext s s' \<longleftrightarrow> (\<exists>rest. sent_of s' = sent_of s @ rest \<and> (\<forall>f \<in> set rest. APCI1 f \<noteq> S))"

definition written :: "device \<Rightarrow> device \<Rightarrow> frame list" where
  "written s s' = drop (length (sent_of s)) (sent_of s')"

definition s_frames :: "frame list \<Rightarrow> frame list" where
  "s_frames fs = filter (\<lambda>f. APCI1 f = S) fs"

definition writer_open :: "device \<Rightarrow> bool" where
  "writer_open s = (case writer s of None \<Rightarrow> False | Some wr \<Rightarrow> \<not> closing wr)"



text \<open>The three frames of an interrogation cycle, in the order \<^verbatim>\<open>run_task\<close> hands them
  to \<^verbatim>\<open>send_frame\<close>: clock synchronisation, general interrogation, counter interrogation,
  all with the cause \<open>act\<close>. \<open>sn\<close> is the send number when the first is made, \<open>sn'\<close> the send
  number when the other two are made.\<close>

definition call_frames :: "int \<Rightarrow> int \<Rightarrow> int \<Rightarrow> frame list" where
  "call_frames sn sn' rn =
     [init_frame_i sn rn C_CS_NA_1 act, init_frame_i sn' rn C_IC_NA_1 act,
      init_frame_i sn' rn C_CI_NA_1 act]"




text \<open>
  The words of C8: I-frames of the given types are sent one after the other, each with the
  cause \<open>act\<close> and the sequence numbers of its moment, through \<^verbatim>\<open>send_frame\<close> with
  \<^verbatim>\<open>check=True\<close>. \<open>can_write\<close>: the writer is open and the sequence numbers of the device
  can be encoded.
\<close>

fun send_acts :: "int list \<Rightarrow> device \<Rightarrow> device" where
  "send_acts [] s = s"
| "send_acts (typ # typs) s =
     send_acts typs (send_frame (Some (init_frame_i (ssn s) (rsn s) typ act)) True s)"

definition can_write :: "device \<Rightarrow> bool" where
  "can_write s \<longleftrightarrow> writer_open s \<and> seq_ok (ssn s) \<and> seq_ok (rsn s)"

section \<open>Properties\<close>

lemma encode_write_if:
  "encode_write f s = (if encodable f then writer_write f s else Inl (EncodeError, s))"
  by (simp add: encode_write_def build_isu_def)

subsection \<open>What each primitive leaves alone\<close>

lemma cancel_same [simp]:
  "coll_interval (cancel h s) = coll_interval s"
  "ssn (cancel h s) = ssn s"
  "rsn (cancel h s) = rsn s"
  "k (cancel h s) = k s"
  "w (cancel h s) = w s"
  "send_list (cancel h s) = send_list s"
  "last_call_all_time_begin (cancel h s) = last_call_all_time_begin s"
  "last_call_all_time_end (cancel h s) = last_call_all_time_end s"
  "connect_retry_count (cancel h s) = connect_retry_count s"
  "user_canceled (cancel h s) = user_canceled s"
  "writer (cancel h s) = writer s"
  "reconnect_handler (cancel h s) = reconnect_handler s"
  "task_handler (cancel h s) = task_handler s"
  "receive_handler (cancel h s) = receive_handler s"
  "t1 (cancel h s) = t1 s"
  "t2 (cancel h s) = t2 s"
  "t3 (cancel h s) = t3 s"
  "connected (cancel h s) = connected s"
  "processed (cancel h s) = processed s"
  "tasks (cancel h s) = tasks s"
  by (simp_all add: cancel_def)

lemma create_task_same [simp]:
  "coll_interval (create_task t s) = coll_interval s"
  "ssn (create_task t s) = ssn s"
  "rsn (create_task t s) = rsn s"
  "k (create_task t s) = k s"
  "w (create_task t s) = w s"
  "send_list (create_task t s) = send_list s"
  "last_call_all_time_begin (create_task t s) = last_call_all_time_begin s"
  "last_call_all_time_end (create_task t s) = last_call_all_time_end s"
  "connect_retry_count (create_task t s) = connect_retry_count s"
  "user_canceled (create_task t s) = user_canceled s"
  "writer (create_task t s) = writer s"
  "reconnect_handler (create_task t s) = reconnect_handler s"
  "task_handler (create_task t s) = task_handler s"
  "receive_handler (create_task t s) = receive_handler s"
  "t1 (create_task t s) = t1 s"
  "t2 (create_task t s) = t2 s"
  "t3 (create_task t s) = t3 s"
  "connected (create_task t s) = connected s"
  "processed (create_task t s) = processed s"
  "handles (create_task t s) = handles s"
  by (simp_all add: create_task_def)

lemma stop_timer_same [simp]:
  "coll_interval (stop_timer tid s) = coll_interval s"
  "ssn (stop_timer tid s) = ssn s"
  "rsn (stop_timer tid s) = rsn s"
  "k (stop_timer tid s) = k s"
  "w (stop_timer tid s) = w s"
  "send_list (stop_timer tid s) = send_list s"
  "last_call_all_time_begin (stop_timer tid s) = last_call_all_time_begin s"
  "last_call_all_time_end (stop_timer tid s) = last_call_all_time_end s"
  "connect_retry_count (stop_timer tid s) = connect_retry_count s"
  "user_canceled (stop_timer tid s) = user_canceled s"
  "writer (stop_timer tid s) = writer s"
  "reconnect_handler (stop_timer tid s) = reconnect_handler s"
  "task_handler (stop_timer tid s) = task_handler s"
  "receive_handler (stop_timer tid s) = receive_handler s"
  "connected (stop_timer tid s) = connected s"
  "processed (stop_timer tid s) = processed s"
  "tasks (stop_timer tid s) = tasks s"
  by (cases tid; simp add: stop_timer_def cancel_def split: option.splits)+

lemma start_timer_same [simp]:
  "coll_interval (start_timer tid s) = coll_interval s"
  "ssn (start_timer tid s) = ssn s"
  "rsn (start_timer tid s) = rsn s"
  "k (start_timer tid s) = k s"
  "w (start_timer tid s) = w s"
  "send_list (start_timer tid s) = send_list s"
  "last_call_all_time_begin (start_timer tid s) = last_call_all_time_begin s"
  "last_call_all_time_end (start_timer tid s) = last_call_all_time_end s"
  "connect_retry_count (start_timer tid s) = connect_retry_count s"
  "user_canceled (start_timer tid s) = user_canceled s"
  "writer (start_timer tid s) = writer s"
  "reconnect_handler (start_timer tid s) = reconnect_handler s"
  "task_handler (start_timer tid s) = task_handler s"
  "receive_handler (start_timer tid s) = receive_handler s"
  "connected (start_timer tid s) = connected s"
  "processed (start_timer tid s) = processed s"
  "tasks (start_timer tid s) = tasks s"
  by (cases tid; simp add: start_timer_def call_later_def stop_timer_def cancel_def split: option.splits)+

lemma inc_ssn_same [simp]:
  "coll_interval (inc_ssn s) = coll_interval s"
  "rsn (inc_ssn s) = rsn s"
  "k (inc_ssn s) = k s"
  "w (inc_ssn s) = w s"
  "send_list (inc_ssn s) = send_list s"
  "last_call_all_time_begin (inc_ssn s) = last_call_all_time_begin s"
  "last_call_all_time_end (inc_ssn s) = last_call_all_time_end s"
  "connect_retry_count (inc_ssn s) = connect_retry_count s"
  "user_canceled (inc_ssn s) = user_canceled s"
  "writer (inc_ssn s) = writer s"
  "reconnect_handler (inc_ssn s) = reconnect_handler s"
  "task_handler (inc_ssn s) = task_handler s"
  "receive_handler (inc_ssn s) = receive_handler s"
  "t1 (inc_ssn s) = t1 s"
  "t2 (inc_ssn s) = t2 s"
  "t3 (inc_ssn s) = t3 s"
  "connected (inc_ssn s) = connected s"
  "processed (inc_ssn s) = processed s"
  "handles (inc_ssn s) = handles s"
  "tasks (inc_ssn s) = tasks s"
  by (simp_all add: inc_ssn_def)

lemma writer_close_same [simp]:
  "coll_interval (writer_close s) = coll_interval s"
  "ssn (writer_close s) = ssn s"
  "rsn (writer_close s) = rsn s"
  "k (writer_close s) = k s"
  "w (writer_close s) = w s"
  "send_list (writer_close s) = send_list s"
  "last_call_all_time_begin (writer_close s) = last_call_all_time_begin s"
  "last_call_all_time_end (writer_close s) = last_call_all_time_end s"
  "connect_retry_count (writer_close s) = connect_retry_count s"
  "user_canceled (writer_close s) = user_canceled s"
  "reconnect_handler (writer_close s) = reconnect_handler s"
  "task_handler (writer_close s) = task_handler s"
  "receive_handler (writer_close s) = receive_handler s"
  "t1 (writer_close s) = t1 s"
  "t2 (writer_close s) = t2 s"
  "t3 (writer_close s) = t3 s"
  "connected (writer_close s) = connected s"
  "processed (writer_close s) = processed s"
  "handles (writer_close s) = handles s"
  "tasks (writer_close s) = tasks s"
  by (simp_all add: writer_close_def split: option.splits)

lemma send_list_append_same [simp]:
  "coll_interval (send_list_append f s) = coll_interval s"
  "ssn (send_list_append f s) = ssn s"
  "rsn (send_list_append f s) = rsn s"
  "k (send_list_append f s) = k s"
  "w (send_list_append f s) = w s"
  "last_call_all_time_begin (send_list_append f s) = last_call_all_time_begin s"
  "last_call_all_time_end (send_list_append f s) = last_call_all_time_end s"
  "connect_retry_count (send_list_append f s) = connect_retry_count s"
  "user_canceled (send_list_append f s) = user_canceled s"
  "writer (send_list_append f s) = writer s"
  "reconnect_handler (send_list_append f s) = reconnect_handler s"
  "task_handler (send_list_append f s) = task_handler s"
  "receive_handler (send_list_append f s) = receive_handler s"
  "t1 (send_list_append f s) = t1 s"
  "t2 (send_list_append f s) = t2 s"
  "t3 (send_list_append f s) = t3 s"
  "connected (send_list_append f s) = connected s"
  "processed (send_list_append f s) = processed s"
  "handles (send_list_append f s) = handles s"
  "tasks (send_list_append f s) = tasks s"
  by (simp_all add: send_list_append_def)

lemma change_device_status_same [simp]:
  "coll_interval (change_device_status b s) = coll_interval s"
  "ssn (change_device_status b s) = ssn s"
  "rsn (change_device_status b s) = rsn s"
  "k (change_device_status b s) = k s"
  "w (change_device_status b s) = w s"
  "send_list (change_device_status b s) = send_list s"
  "last_call_all_time_begin (change_device_status b s) = last_call_all_time_begin s"
  "last_call_all_time_end (change_device_status b s) = last_call_all_time_end s"
  "connect_retry_count (change_device_status b s) = connect_retry_count s"
  "user_canceled (change_device_status b s) = user_canceled s"
  "writer (change_device_status b s) = writer s"
  "reconnect_handler (change_device_status b s) = reconnect_handler s"
  "task_handler (change_device_status b s) = task_handler s"
  "receive_handler (change_device_status b s) = receive_handler s"
  "t1 (change_device_status b s) = t1 s"
  "t2 (change_device_status b s) = t2 s"
  "t3 (change_device_status b s) = t3 s"
  "processed (change_device_status b s) = processed s"
  "handles (change_device_status b s) = handles s"
  "tasks (change_device_status b s) = tasks s"
  by (simp_all add: change_device_status_def)

lemma process_data_same [simp]:
  "coll_interval (process_data ps m s) = coll_interval s"
  "ssn (process_data ps m s) = ssn s"
  "rsn (process_data ps m s) = rsn s"
  "k (process_data ps m s) = k s"
  "w (process_data ps m s) = w s"
  "send_list (process_data ps m s) = send_list s"
  "last_call_all_time_begin (process_data ps m s) = last_call_all_time_begin s"
  "last_call_all_time_end (process_data ps m s) = last_call_all_time_end s"
  "connect_retry_count (process_data ps m s) = connect_retry_count s"
  "user_canceled (process_data ps m s) = user_canceled s"
  "writer (process_data ps m s) = writer s"
  "reconnect_handler (process_data ps m s) = reconnect_handler s"
  "task_handler (process_data ps m s) = task_handler s"
  "receive_handler (process_data ps m s) = receive_handler s"
  "t1 (process_data ps m s) = t1 s"
  "t2 (process_data ps m s) = t2 s"
  "t3 (process_data ps m s) = t3 s"
  "connected (process_data ps m s) = connected s"
  "handles (process_data ps m s) = handles s"
  "tasks (process_data ps m s) = tasks s"
  by (simp_all add: process_data_def)


lemma stop_timer_timers [simp]:
  "t1 (stop_timer tid s) = (if tid = T1 then None else t1 s)"
  "t2 (stop_timer tid s) = (if tid = T2 then None else t2 s)"
  "t3 (stop_timer tid s) = (if tid = T3 then None else t3 s)"
  by (cases tid; simp add: stop_timer_def split: option.splits)+

lemma cancel_length [simp]: "length (handles (cancel h s)) = length (handles s)"
  by (simp add: cancel_def)

lemma stop_timer_length [simp]: "length (handles (stop_timer tid s)) = length (handles s)"
  by (cases tid; simp add: stop_timer_def split: option.splits)

lemma start_timer_timers [simp]:
  "t1 (start_timer tid s) = (if tid = T1 then Some (length (handles s)) else t1 s)"
  "t2 (start_timer tid s) = (if tid = T2 then Some (length (handles s)) else t2 s)"
  "t3 (start_timer tid s) = (if tid = T3 then Some (length (handles s)) else t3 s)"
  by (cases tid; simp add: start_timer_def call_later_def)+

lemma start_timer_length [simp]:
  "length (handles (start_timer tid s)) = Suc (length (handles s))"
  by (cases tid; simp add: start_timer_def call_later_def)

lemma call_later_fst [simp]: "fst (call_later d cb s) = length (handles s)"
  by (simp add: call_later_def)

lemma disconnect_same [simp]:
  "coll_interval (disconnect r s) = coll_interval s"
  "last_call_all_time_begin (disconnect r s) = last_call_all_time_begin s"
  "last_call_all_time_end (disconnect r s) = last_call_all_time_end s"
  "task_handler (disconnect r s) = task_handler s"
  "receive_handler (disconnect r s) = receive_handler s"
  "processed (disconnect r s) = processed s"
  "tasks (disconnect r s) = tasks s"
  by (simp_all add: disconnect_def disconnect_handler_def call_later_def Let_def
        split: option.splits)

lemma disconnect_counters [simp]:
  "ssn (disconnect r s) = 0" "rsn (disconnect r s) = 0" "k (disconnect r s) = 0"
  "w (disconnect r s) = 0" "send_list (disconnect r s) = []"
  "t1 (disconnect r s) = None" "t2 (disconnect r s) = None" "t3 (disconnect r s) = None"
  "connected (disconnect r s) = False"
  by (simp_all add: disconnect_def Let_def change_device_status_def)

lemma handles_le_refl [simp]: "handles_le s s"
  by (simp add: handles_le_def)

lemma handles_le_trans: "handles_le s s' \<Longrightarrow> handles_le s' s'' \<Longrightarrow> handles_le s s''"
  by (auto simp: handles_le_def)

lemma handles_le_eq: "handles s' = handles s \<Longrightarrow> handles_le s s'"
  by (simp add: handles_le_def)

lemma handles_le_cancel [simp]: "handles_le s (cancel h s)"
  by (auto simp: handles_le_def cancel_def nth_list_update)

lemma handles_le_call_later [simp]: "handles_le s (snd (call_later d cb s))"
  by (auto simp: handles_le_def call_later_def nth_append)

lemma handles_le_stop_timer [simp]: "handles_le s (stop_timer tid s)"
  by (cases tid; auto simp: stop_timer_def handles_le_def cancel_def nth_list_update
        split: option.splits)

lemma handles_le_start_timer [simp]: "handles_le s (start_timer tid s)"
proof -
  have "handles_le (stop_timer tid s) (start_timer tid s)"
    by (cases tid; auto simp: start_timer_def handles_le_def call_later_def nth_append)
  then show ?thesis
    using handles_le_stop_timer handles_le_trans by blast
qed

lemma stopped_mono: "stopped ho s \<Longrightarrow> handles_le s s' \<Longrightarrow> stopped ho s'"
  by (auto simp: stopped_def handles_le_def split: option.splits)

lemma valid_handle_mono: "valid_handle ho s \<Longrightarrow> handles_le s s' \<Longrightarrow> valid_handle ho s'"
  by (auto simp: valid_handle_def handles_le_def split: option.splits)

lemma stop_timer_stopped:
  "valid_handle (get_timer tid s) s \<Longrightarrow> stopped (get_timer tid s) (stop_timer tid s)"
  by (cases tid; auto simp: stop_timer_def stopped_def valid_handle_def cancel_def
        split: option.splits)

lemma handles_le_disconnect_handler [simp]: "handles_le s (disconnect_handler r s)"
  by (auto simp: disconnect_handler_def Let_def handles_le_def call_later_def cancel_def
        nth_append nth_list_update split: option.splits)

lemma disconnect_handler_timers [simp]:
  "t1 (disconnect_handler r s) = t1 s"
  "t2 (disconnect_handler r s) = t2 s"
  "t3 (disconnect_handler r s) = t3 s"
  by (simp_all add: disconnect_handler_def Let_def call_later_def split: option.splits)

lemma handles_disconnect:
  "handles (disconnect r s) =
     handles (stop_timer T3 (stop_timer T2 (stop_timer T1 (disconnect_handler r s))))"
  by (simp add: disconnect_def Let_def change_device_status_def)

lemma handles_le_disconnect [simp]: "handles_le s (disconnect r s)"
proof -
  let ?s1 = "disconnect_handler r s"
  let ?s2 = "stop_timer T1 ?s1"
  let ?s3 = "stop_timer T2 ?s2"
  let ?s4 = "stop_timer T3 ?s3"
  have "handles_le s ?s4"
    by (meson handles_le_disconnect_handler handles_le_stop_timer handles_le_trans)
  moreover have "handles_le ?s4 (disconnect r s)"
    by (rule handles_le_eq) (simp add: handles_disconnect)
  ultimately show ?thesis by (rule handles_le_trans)
qed


subsection \<open>C10: disconnect stops the timers, resets the counters, clears the queue\<close>

text \<open>
  The state that one call of \<^verbatim>\<open>disconnect\<close> leaves. With \<open>reconnect\<close> false (the user's
  call) or true (after a failure), the call leaves \<open>ssn\<close>, \<open>rsn\<close>, \<open>k\<close> and \<open>w\<close> at 0 and
  \<open>send_list\<close> empty, leaves the attributes of T1, T2 and T3 at \<open>None\<close>, has cancelled the
  handle that each of these timers held before the call, and leaves the device off line.
\<close>

theorem disconnect_stops_and_resets:
  "ssn (disconnect r s) = 0 \<and> rsn (disconnect r s) = 0 \<and>
   k (disconnect r s) = 0 \<and> w (disconnect r s) = 0 \<and>
   send_list (disconnect r s) = [] \<and>
   t1 (disconnect r s) = None \<and> t2 (disconnect r s) = None \<and>
   t3 (disconnect r s) = None \<and> connected (disconnect r s) = False \<and>
   (valid_handle (t1 s) s \<longrightarrow> stopped (t1 s) (disconnect r s)) \<and>
   (valid_handle (t2 s) s \<longrightarrow> stopped (t2 s) (disconnect r s)) \<and>
   (valid_handle (t3 s) s \<longrightarrow> stopped (t3 s) (disconnect r s))"
proof -
  let ?s1 = "disconnect_handler r s"
  let ?s2 = "stop_timer T1 ?s1"
  let ?s3 = "stop_timer T2 ?s2"
  let ?s4 = "stop_timer T3 ?s3"
  have fin: "handles_le ?s4 (disconnect r s)"
    by (rule handles_le_eq) (simp add: handles_disconnect)
  have a: "stopped (t1 s) (disconnect r s)" if "valid_handle (t1 s) s"
  proof -
    have "valid_handle (get_timer T1 ?s1) ?s1"
      using that valid_handle_mono [OF _ handles_le_disconnect_handler] by simp
    then have "stopped (t1 s) ?s2"
      using stop_timer_stopped [of T1 ?s1] by simp
    then show ?thesis
      by (meson stopped_mono handles_le_stop_timer fin)
  qed
  have b: "stopped (t2 s) (disconnect r s)" if "valid_handle (t2 s) s"
  proof -
    have "handles_le s ?s2"
      by (meson handles_le_disconnect_handler handles_le_stop_timer handles_le_trans)
    then have "valid_handle (get_timer T2 ?s2) ?s2"
      using that valid_handle_mono by simp
    then have "stopped (t2 s) ?s3"
      using stop_timer_stopped [of T2 ?s2] by simp
    then show ?thesis
      by (meson stopped_mono handles_le_stop_timer fin)
  qed
  have c: "stopped (t3 s) (disconnect r s)" if "valid_handle (t3 s) s"
  proof -
    have "handles_le s ?s3"
      by (meson handles_le_disconnect_handler handles_le_stop_timer handles_le_trans)
    then have "valid_handle (get_timer T3 ?s3) ?s3"
      using that valid_handle_mono by simp
    then have "stopped (t3 s) ?s4"
      using stop_timer_stopped [of T3 ?s3] by simp
    then show ?thesis
      by (meson stopped_mono fin)
  qed
  show ?thesis using a b c by simp
qed


text \<open>The theorem at \<open>busy_device\<close>, where the three timers are armed, a frame waits in
  \<open>send_list\<close> and \<open>ssn\<close> is 1.\<close>

theorem disconnect_stops_and_resets_witness:
  "t1 busy_device \<noteq> None \<and> t2 busy_device \<noteq> None \<and> t3 busy_device \<noteq> None \<and>
   valid_handle (t1 busy_device) busy_device \<and> valid_handle (t2 busy_device) busy_device \<and>
   valid_handle (t3 busy_device) busy_device \<and>
   stopped (t1 busy_device) (disconnect True busy_device) \<and>
   stopped (t2 busy_device) (disconnect True busy_device) \<and>
   stopped (t3 busy_device) (disconnect True busy_device) \<and>
   send_list busy_device \<noteq> [] \<and> send_list (disconnect True busy_device) = [] \<and>
   ssn busy_device = 1 \<and> ssn (disconnect True busy_device) = 0"
proof -
  have a: "t1 busy_device \<noteq> None \<and> t2 busy_device \<noteq> None \<and> t3 busy_device \<noteq> None"
    by code_simp
  have b: "valid_handle (t1 busy_device) busy_device"
    "valid_handle (t2 busy_device) busy_device" "valid_handle (t3 busy_device) busy_device"
    by code_simp+
  have c: "send_list busy_device \<noteq> [] \<and> ssn busy_device = 1"
    by code_simp
  show ?thesis
    using a b c disconnect_stops_and_resets [of True busy_device] by simp
qed

text \<open>
  C10. The claim is that every call of \<^verbatim>\<open>disconnect\<close> stops T1, T2 and T3, resets \<open>ssn\<close>,
  \<open>rsn\<close>, \<open>k\<close> and \<open>w\<close> and clears \<open>send_list\<close>, so that in every Disconnected state the
  counters are zero and the queue is empty. The call does the first; it does not stop the
  receive task: \<^verbatim>\<open>self.receive_handler and asyncio.wait_for(self.receive_handler, 0.5)\<close>
  builds the wait and never awaits it, and \<^verbatim>\<open>receive\<close> has created the task of the next
  frame before it handles this one. \<open>busy_device\<close> expects the send number 1 and reads two
  I-frames one after the other. The first, with the send number 5, is a bad frame:
  \<^verbatim>\<open>receive\<close> disconnects, and the counters are zero and the timers stopped. The second,
  with the send number 0, is read by the next task and accepted: the device is still off
  line and its writer closed, and \<open>rsn\<close> and \<open>w\<close> are 1 and T2 and T3 run again, on live
  handles.
\<close>

theorem frame_after_disconnect:
  "connected busy_device = True \<and> rsn busy_device = 1 \<and>
   connected (run [Ev_receive (Read_frame (spont_frame 5 0)) 3000] busy_device) = False \<and>
   rsn (run [Ev_receive (Read_frame (spont_frame 5 0)) 3000] busy_device) = 0 \<and>
   w (run [Ev_receive (Read_frame (spont_frame 5 0)) 3000] busy_device) = 0 \<and>
   t2 (run [Ev_receive (Read_frame (spont_frame 5 0)) 3000] busy_device) = None \<and>
   t3 (run [Ev_receive (Read_frame (spont_frame 5 0)) 3000] busy_device) = None \<and>
   connected (run [Ev_receive (Read_frame (spont_frame 5 0)) 3000,
                   Ev_receive (Read_frame (spont_frame 0 0)) 3000] busy_device) = False \<and>
   writer_open (run [Ev_receive (Read_frame (spont_frame 5 0)) 3000,
                     Ev_receive (Read_frame (spont_frame 0 0)) 3000] busy_device) = False \<and>
   rsn (run [Ev_receive (Read_frame (spont_frame 5 0)) 3000,
             Ev_receive (Read_frame (spont_frame 0 0)) 3000] busy_device) = 1 \<and>
   w (run [Ev_receive (Read_frame (spont_frame 5 0)) 3000,
           Ev_receive (Read_frame (spont_frame 0 0)) 3000] busy_device) = 1 \<and>
   t2 (run [Ev_receive (Read_frame (spont_frame 5 0)) 3000,
            Ev_receive (Read_frame (spont_frame 0 0)) 3000] busy_device) = Some 10 \<and>
   t3 (run [Ev_receive (Read_frame (spont_frame 5 0)) 3000,
            Ev_receive (Read_frame (spont_frame 0 0)) 3000] busy_device) = Some 9 \<and>
   map cancelled (drop 9 (handles (run [Ev_receive (Read_frame (spont_frame 5 0)) 3000,
                                        Ev_receive (Read_frame (spont_frame 0 0)) 3000]
                                     busy_device)))
     = [False, False]"
  by code_simp

subsection \<open>C1: the receive sequence number at 32767\<close>

text \<open>
  C1. The claim is that an accepted I-frame increments \<open>rsn\<close> modulo 32768, so that 32767
  is followed by 0. \<^verbatim>\<open>receive\<close> executes \<^verbatim>\<open>self.rsn += 1\<close>: with \<open>rsn = 32767\<close> an I-frame
  whose send number is 32767 is accepted and leaves \<open>rsn = 32768\<close>. \<^verbatim>\<open>inc_rsn\<close>, which
  wraps to 0, is defined next to \<^verbatim>\<open>inc_ssn\<close> and never called.
\<close>

theorem receive_rsn_not_wrapped:
  "rsn (receive (Read_frame (spont_frame 32767 0)) 1000 (started_device\<lparr>rsn := 32767\<rparr>))
     = 32768 \<and>
   rsn (inc_rsn (started_device\<lparr>rsn := 32767\<rparr>)) = 0"
  by code_simp


subsection \<open>C2: addresses of a sequence with an invalid element\<close>

text \<open>
  C2. The claim is that with \<^verbatim>\<open>SQ = 1\<close> the element at position \<open>i\<close> of the data array
  gets the address \<open>StartAddress + i\<close>, skipped elements included in the count. The loop
  of \<^verbatim>\<open>handle_i\<close> increments \<open>idx\<close> after the \<^verbatim>\<open>continue\<close> of an invalid element: in
  \<open>sq_frame\<close> the element at position 1 follows an invalid one and is published with the
  address 100, not 101.
\<close>

theorem sq_address_shifted:
  "processed (receive (Read_frame sq_frame) 1000 started_device)
     = [({(1000, 100, 7)}, ''data'')]"
  by code_simp

subsection \<open>C9: the channel of create_term\<close>

text \<open>
  C9. The claim is that a successful \<^verbatim>\<open>POST /api/v1/terms\<close> publishes the term on the
  channel \<^verbatim>\<open>CHANNEL:TERM_ADD\<close>. \<^verbatim>\<open>create_term\<close> answers 200 and publishes on the
  channel whose name ends with a double quote (character 0x22); nothing is published on
  \<^verbatim>\<open>CHANNEL:TERM_ADD\<close>.
\<close>

theorem create_term_channel:
  "fst (create_term term_loads term_body empty_redis) = 200 \<and>
   published (snd (create_term term_loads term_body empty_redis))
     = [(''CHANNEL:TERM_ADD'' @ [CHR 0x22], term_body)] \<and>
   (''CHANNEL:TERM_ADD'', term_body)
     \<notin> set (published (snd (create_term term_loads term_body empty_redis)))"
  by (simp add: create_term_def term_loads_def empty_redis_def exists_key_def hmset_def
        sadd_def publish_def Let_def)

subsection \<open>C3: an acknowledgement after the send number has wrapped\<close>

lemma check_seq_k:
  "APCI2 frame \<le> ssn s \<Longrightarrow> k (snd (check_seq frame s)) = ssn s - APCI2 frame"
  by (simp add: check_seq_def split: apci1.splits)

lemma check_seq_bad:
  "ssn s < APCI2 frame \<Longrightarrow> fst (check_seq frame s) \<and> k (snd (check_seq frame s)) = k s"
  by (simp add: check_seq_def split: apci1.splits)

lemma check_seq_reconnect_handler [simp]:
  "reconnect_handler (snd (check_seq frame s)) = reconnect_handler s"
  by (simp add: check_seq_def split: apci1.splits)

text \<open>
  C3. The claim is that \<open>k\<close> is the difference of \<open>ssn\<close> and the peer's receive number
  modulo 32768, so that an acknowledgement stays valid when \<open>ssn\<close> has wrapped past 32767.
  In \<open>wrapped_device\<close> the I-frame 32767 has been sent, \<^verbatim>\<open>inc_ssn\<close> has wrapped \<open>ssn\<close> to 0
  and \<open>k\<close> is 1. The peer's S-frame with the receive number 32767 acknowledges every frame
  before that one: modulo 32768 one frame is outstanding. \<^verbatim>\<open>receive\<close> compares
  \<^verbatim>\<open>self.ssn < frame.APCI2\<close> as integers, takes the frame for a bad one and disconnects:
  the queue is cleared, the link is down, a reconnect is counted.
\<close>

theorem ack_after_wrap_ends_session:
  "ssn (started_device\<lparr>ssn := 32767\<rparr>) = 32767 \<and>
   ssn wrapped_device = 0 \<and> k wrapped_device = 1 \<and>
   (ssn wrapped_device - 32767) mod 32768 = 1 \<and>
   connected wrapped_device = True \<and>
   k (receive (Read_frame (init_frame_s 32767)) 1000 wrapped_device) = 0 \<and>
   send_list (receive (Read_frame (init_frame_s 32767)) 1000 wrapped_device) = [] \<and>
   connected (receive (Read_frame (init_frame_s 32767)) 1000 wrapped_device) = False \<and>
   connect_retry_count (receive (Read_frame (init_frame_s 32767)) 1000 wrapped_device) = 1"
  by code_simp


subsection \<open>C5: a received S-frame\<close>

lemma receive_s_frame:
  assumes "APCI1 frame = S" "APCI2 frame \<le> ssn s"
  shows "receive (Read_frame frame) now s
           = (create_task (Task_save_frame frame False) (receive_started s))
               \<lparr>k := ssn s - APCI2 frame\<rparr>"
  using assms
  by (simp add: receive_frame_def check_seq_def receive_started_def)

lemma cancelled_start_timer:
  assumes "h < length (handles s)" "get_timer tid s \<noteq> Some h"
  shows "cancelled (handles (start_timer tid s) ! h) = cancelled (handles s ! h)"
  using assms
  by (cases tid; auto simp: start_timer_def call_later_def stop_timer_def cancel_def
        nth_append nth_list_update split: option.splits)

lemma handles_start_timer:
  "handles (start_timer tid s)
     = handles (stop_timer tid s)
         @ [\<lparr>delay = IECParam_value tid, callback = CB_on_timer tid, cancelled = False\<rparr>]"
  by (cases tid; simp add: start_timer_def call_later_def)

lemma start_timer_stopped:
  assumes "valid_handle (get_timer tid s) s"
  shows "stopped (get_timer tid s) (start_timer tid s)"
proof -
  have "stopped (get_timer tid s) (stop_timer tid s)"
    using assms by (rule stop_timer_stopped)
  moreover have "handles_le (stop_timer tid s) (start_timer tid s)"
    by (auto simp: handles_le_def handles_start_timer nth_append)
  ultimately show ?thesis by (rule stopped_mono)
qed

text \<open>
  C5, as the code has it. A received S-frame whose receive number is at most \<open>ssn\<close> restarts
  T3 and sets \<open>k\<close>, and does nothing else. T1 is not stopped (its attribute and its handle
  are as before), \<open>send_list\<close> is unchanged and nothing is written. T3 is restarted: the
  handle it held is cancelled, and its new handle, the one the loop has just made, is live,
  has the delay of T3 and calls \<^verbatim>\<open>on_timer3\<close>.
\<close>

theorem s_frame_only_updates_k:
  "APCI1 frame = S \<Longrightarrow> APCI2 frame \<le> ssn s \<Longrightarrow>
   k (receive (Read_frame frame) now s) = ssn s - APCI2 frame \<and>
   t1 (receive (Read_frame frame) now s) = t1 s \<and>
   send_list (receive (Read_frame frame) now s) = send_list s \<and>
   writer (receive (Read_frame frame) now s) = writer s \<and>
   (t1 s = Some h \<and> h < length (handles s) \<and> t3 s \<noteq> Some h \<longrightarrow>
      cancelled (handles (receive (Read_frame frame) now s) ! h) = cancelled (handles s ! h)) \<and>
   t3 (receive (Read_frame frame) now s) = Some (length (handles s)) \<and>
   length (handles (receive (Read_frame frame) now s)) = Suc (length (handles s)) \<and>
   handles (receive (Read_frame frame) now s) ! length (handles s)
     = \<lparr>delay = 20, callback = CB_on_timer T3, cancelled = False\<rparr> \<and>
   (valid_handle (t3 s) s \<longrightarrow> stopped (t3 s) (receive (Read_frame frame) now s))"
proof -
  assume a: "APCI1 frame = S" "APCI2 frame \<le> ssn s"
  have c: "cancelled (handles (start_timer T3 s) ! h) = cancelled (handles s ! h)"
    if "h < length (handles s)" "t3 s \<noteq> Some h"
    using that cancelled_start_timer [of h s T3] by simp
  have n: "handles (start_timer T3 s) ! length (handles s)
             = \<lparr>delay = 20, callback = CB_on_timer T3, cancelled = False\<rparr>"
    by (simp add: handles_start_timer nth_append)
  have m: "k (receive (Read_frame frame) now s) = ssn s - APCI2 frame \<and>
     t1 (receive (Read_frame frame) now s) = t1 s \<and>
     send_list (receive (Read_frame frame) now s) = send_list s \<and>
     writer (receive (Read_frame frame) now s) = writer s \<and>
     (t1 s = Some h \<and> h < length (handles s) \<and> t3 s \<noteq> Some h \<longrightarrow>
        cancelled (handles (receive (Read_frame frame) now s) ! h) = cancelled (handles s ! h)) \<and>
     t3 (receive (Read_frame frame) now s) = Some (length (handles s)) \<and>
     length (handles (receive (Read_frame frame) now s)) = Suc (length (handles s)) \<and>
     handles (receive (Read_frame frame) now s) ! length (handles s)
       = \<lparr>delay = 20, callback = CB_on_timer T3, cancelled = False\<rparr>"
    unfolding receive_s_frame [OF a] using c n by (simp add: receive_started_def)
  have fin: "handles_le (start_timer T3 s) (receive (Read_frame frame) now s)"
    unfolding receive_s_frame [OF a]
    by (rule handles_le_eq) (simp add: receive_started_def)
  have "stopped (t3 s) (receive (Read_frame frame) now s)" if "valid_handle (t3 s) s"
    using start_timer_stopped [of T3 s] that stopped_mono [OF _ fin] by simp
  with m show ?thesis by blast
qed

text \<open>The theorem at \<open>busy_device\<close>, where T1 runs on handle 4 and T3 on handle 5.\<close>

theorem s_frame_only_updates_k_witness:
  "APCI1 (init_frame_s 0) = S \<and> APCI2 (init_frame_s 0) \<le> ssn busy_device \<and>
   t1 busy_device = Some 4 \<and> 4 < length (handles busy_device) \<and>
   t3 busy_device = Some 5 \<and> cancelled (handles busy_device ! 4) = False \<and>
   cancelled (handles busy_device ! 5) = False \<and>
   valid_handle (t3 busy_device) busy_device \<and>
   length (handles busy_device) = 7 \<and>
   k (receive (Read_frame (init_frame_s 0)) 2000 busy_device) = 1 \<and>
   t1 (receive (Read_frame (init_frame_s 0)) 2000 busy_device) = Some 4 \<and>
   send_list (receive (Read_frame (init_frame_s 0)) 2000 busy_device) = send_list busy_device \<and>
   writer (receive (Read_frame (init_frame_s 0)) 2000 busy_device) = writer busy_device \<and>
   cancelled (handles (receive (Read_frame (init_frame_s 0)) 2000 busy_device) ! 4) = False \<and>
   t3 (receive (Read_frame (init_frame_s 0)) 2000 busy_device) = Some 7 \<and>
   handles (receive (Read_frame (init_frame_s 0)) 2000 busy_device) ! 7
     = \<lparr>delay = 20, callback = CB_on_timer T3, cancelled = False\<rparr> \<and>
   stopped (Some 5) (receive (Read_frame (init_frame_s 0)) 2000 busy_device)"
proof -
  have a: "APCI1 (init_frame_s 0) = S" "APCI2 (init_frame_s 0) \<le> ssn busy_device"
    "ssn busy_device - APCI2 (init_frame_s 0) = 1"
    "t1 busy_device = Some 4" "4 < length (handles busy_device)"
    "t3 busy_device = Some 5" "cancelled (handles busy_device ! 4) = False"
    "cancelled (handles busy_device ! 5) = False"
    "valid_handle (t3 busy_device) busy_device" "length (handles busy_device) = 7"
    by code_simp+
  show ?thesis
    using a s_frame_only_updates_k [of "init_frame_s 0" busy_device 2000 4]
    by simp
qed

text \<open>
  C5 as the claim states it fails: in \<open>busy_device\<close> T1 is armed and a read command waits
  in \<open>send_list\<close>; after the S-frame with receive number 1, T1 is still armed and not
  cancelled, \<open>send_list\<close> still holds the command, and the writer has written nothing.
\<close>

theorem s_frame_counterexample:
  "APCI2 (init_frame_s 1) \<le> ssn busy_device \<and>
   t1 busy_device = Some 4 \<and>
   t1 (receive (Read_frame (init_frame_s 1)) 2000 busy_device) = Some 4 \<and>
   cancelled (handles (receive (Read_frame (init_frame_s 1)) 2000 busy_device) ! 4) = False \<and>
   length (send_list busy_device) = 1 \<and>
   send_list (receive (Read_frame (init_frame_s 1)) 2000 busy_device) = send_list busy_device \<and>
   writer (receive (Read_frame (init_frame_s 1)) 2000 busy_device) = writer busy_device"
  by code_simp

subsection \<open>C6: connect_retry_count\<close>

lemma res_state_simps [simp]: "res_state (Inl (e, s)) = s" "res_state (Inr s) = s"
  by (simp_all add: res_state_def)

lemma crc_disconnect:
  "connect_retry_count (disconnect r s)
     = (if r \<and> reconnect_handler s = None then connect_retry_count s + 1
        else connect_retry_count s)"
  by (simp add: disconnect_def disconnect_handler_def call_later_def Let_def
        change_device_status_def split: option.splits)

lemma crc_disconnect_le: "connect_retry_count s \<le> connect_retry_count (disconnect r s)"
  by (simp add: crc_disconnect)

lemma crc_catch:
  "connect_retry_count (res_state r) \<le> connect_retry_count (catch_disconnect r)"
  by (cases r) (auto simp: catch_disconnect_def crc_disconnect)

lemma crc_writer_write [simp]:
  "connect_retry_count (res_state (writer_write f s)) = connect_retry_count s"
  by (simp add: encode_write_if writer_write_def split: option.splits)

lemma crc_send_s [simp]:
  "connect_retry_count (res_state (send_s f s)) = connect_retry_count s"
  by (simp add: send_s_def encode_write_if writer_write_def Let_def split: option.splits)

lemma crc_send_u [simp]:
  "connect_retry_count (res_state (send_u u f c s)) = connect_retry_count s"
  by (simp add: send_u_def encode_write_if writer_write_def Let_def split: option.splits)

lemma crc_send_i_write [simp]:
  "connect_retry_count (res_state (send_i_write f c s)) = connect_retry_count s"
  by (simp add: send_i_write_def encode_write_if writer_write_def Let_def split: option.splits)

lemma crc_send_i [simp]:
  "connect_retry_count (res_state (send_i f c s)) = connect_retry_count s"
  by (simp add: send_i_def split: option.splits)

lemma crc_send_frame: "connect_retry_count s \<le> connect_retry_count (send_frame fo c s)"
proof (cases fo)
  case None
  then show ?thesis by (simp add: send_frame_def)
next
  case (Some f)
  let ?r = "case APCI1 f of S \<Rightarrow> send_s f s | U u \<Rightarrow> send_u u f c s | I n \<Rightarrow> send_i f c s"
  have "connect_retry_count (res_state ?r) = connect_retry_count s"
    by (cases "APCI1 f") simp_all
  then show ?thesis
    using Some crc_catch [of ?r] by (simp add: send_frame_def)
qed

lemma crc_send_head: "connect_retry_count s \<le> connect_retry_count (send_head s)"
proof (cases "send_list s")
  case Nil
  then show ?thesis by (simp add: send_head_def send_frame_def)
next
  case (Cons h rest)
  then show ?thesis
    using crc_send_frame [of s "Some h" False]
    by (simp add: send_head_def Let_def split: list.splits)
qed

lemma crc_check_to_send_try:
  "connect_retry_count s \<le> connect_retry_count (res_state (check_to_send_try fo s))"
proof -
  have "connect_retry_count s
          \<le> connect_retry_count (send_head (stop_timer T1 s\<lparr>send_list := rest\<rparr>))" for rest
    using crc_send_head [of "stop_timer T1 s\<lparr>send_list := rest\<rparr>"] by simp
  then show ?thesis
    by (simp add: check_to_send_try_def Let_def split: option.splits list.splits)
qed

lemma crc_check_to_send: "connect_retry_count s \<le> connect_retry_count (check_to_send fo s)"
  using crc_check_to_send_try [of s fo] crc_catch [of "check_to_send_try fo s"]
  by (simp add: check_to_send_def)

lemma crc_dispatch_i:
  "connect_retry_count s \<le> connect_retry_count (res_state (dispatch_i f a now s))"
  using crc_send_frame [of s "Some (execute_frame f a)" True]
  by (simp add: dispatch_i_def split: sum.splits bool.splits)

lemma crc_handle_i_try:
  "connect_retry_count s \<le> connect_retry_count (res_state (handle_i_try f now s))"
proof (cases "ASDU f")
  case None
  then show ?thesis by (simp add: handle_i_try_def)
next
  case (Some a)
  let ?s1 = "start_timer T2 s"
  let ?s2 = "if w ?s1 \<ge> IECParam_W then send_frame (Some (init_frame_s (rsn ?s1))) True ?s1 else ?s1"
  let ?s3 = "if Cause a = actcon \<or> Cause a = req
             then create_task (Task_check_to_send f) (stop_timer T1 ?s2) else ?s2"
  have "connect_retry_count s \<le> connect_retry_count ?s2"
    using crc_send_frame [of ?s1 "Some (init_frame_s (rsn ?s1))" True] by simp
  then have "connect_retry_count s \<le> connect_retry_count ?s3" by simp
  also have "\<dots> \<le> connect_retry_count (res_state (dispatch_i f a now ?s3))"
    by (rule crc_dispatch_i)
  finally show ?thesis using Some by (simp add: handle_i_try_def Let_def)
qed

lemma crc_handle_i: "connect_retry_count s \<le> connect_retry_count (handle_i f now s)"
  using crc_handle_i_try [of s f now] crc_catch [of "handle_i_try f now s"]
  by (simp add: handle_i_def)

lemma crc_drop_own [simp]: "connect_retry_count (drop_own u s) = connect_retry_count s"
  by (simp add: drop_own_def split: list.splits)

lemma crc_handle_u_try: "connect_retry_count s \<le> connect_retry_count (handle_u_try u f s)"
proof (cases u)
  case STARTDT_ACT
  then show ?thesis
    using crc_send_frame [of "drop_own STARTDT_ACT s" "Some (init_frame_u STARTDT_CON)" True]
    by simp
next
  case TESTFR_ACT
  then show ?thesis
    using crc_send_frame [of "drop_own TESTFR_ACT s" "Some (init_frame_u TESTFR_CON)" True]
    by simp
next
  case STOPDT_ACT
  then show ?thesis
    using crc_send_frame [of s "Some (init_frame_u STOPDT_CON)" True]
      crc_disconnect_le [of "send_frame (Some (init_frame_u STOPDT_CON)) True s" False]
    by simp
next
  case STOPDT_CON
  then show ?thesis
    using crc_disconnect_le [of "stop_timer T1 s" False] by simp
qed simp_all

lemma crc_handle_u: "connect_retry_count s \<le> connect_retry_count (handle_u f s)"
  using crc_handle_u_try crc_disconnect_le
  by (simp add: handle_u_def split: apci1.splits)

lemma crc_check_seq [simp]:
  "connect_retry_count (snd (check_seq f s)) = connect_retry_count s"
  by (simp add: check_seq_def split: apci1.splits)

lemma crc_receive_frame: "connect_retry_count s \<le> connect_retry_count (receive_frame f now s)"
proof -
  obtain bad s1 where c: "check_seq f s = (bad, s1)"
    by (cases "check_seq f s")
  then have e: "connect_retry_count s1 = connect_retry_count s"
    using crc_check_seq [of f s] by simp
  show ?thesis
    using c e crc_handle_u [of s f] crc_handle_i [of s1 f now] crc_disconnect_le [of s1 True]
    by (simp add: receive_frame_def split: apci1.splits)
qed

lemma crc_receive_started [simp]:
  "connect_retry_count (receive_started s) = connect_retry_count s"
  by (simp add: receive_started_def)

lemma crc_receive: "connect_retry_count s \<le> connect_retry_count (receive r now s)"
proof (cases r)
  case (Read_frame f)
  then show ?thesis
    using crc_receive_frame [of "create_task (Task_save_frame f False) (receive_started s)" f now]
    by simp
next
  case Read_bad_frame
  then show ?thesis
    using crc_disconnect_le [of "receive_started s" True] by simp
qed (simp_all add: crc_disconnect_le)

lemma crc_on_timer [simp]: "connect_retry_count (on_timer tid s) = connect_retry_count s"
  by (cases tid) (simp_all add: call_soon_def call_later_def)

lemma crc_reconnect: "connect_retry_count s \<le> connect_retry_count (reconnect r s)"
proof (cases r)
  case Conn_ok
  let ?s4 = "(create_task Task_receive
               (change_device_status True
                  (s\<lparr>reconnect_handler := None, user_canceled := False,
                      writer := Some \<lparr>sent = [], closing = False\<rparr>\<rparr>)))
             \<lparr>receive_handler := Some Task_receive\<rparr>"
  show ?thesis
    using Conn_ok crc_send_frame [of ?s4 "Some (init_frame_u STARTDT_ACT)" True]
    by (simp add: reconnect_def Let_def)
next
  case Conn_timeout
  then show ?thesis
    using crc_disconnect_le [of "s\<lparr>reconnect_handler := None, user_canceled := False\<rparr>" True]
    by (simp add: reconnect_def Let_def)
next
  case Conn_failed
  then show ?thesis
    using crc_disconnect_le [of "s\<lparr>reconnect_handler := None, user_canceled := False\<rparr>" True]
    by (simp add: reconnect_def Let_def)
qed

lemma crc_call_all: "connect_retry_count s \<le> connect_retry_count (call_all now s)"
proof -
  let ?s1 = "s\<lparr>last_call_all_time_begin := Some now\<rparr>"
  let ?s2 = "send_frame (Some (init_frame_i (ssn ?s1) (rsn ?s1) C_CS_NA_1 act)) True ?s1"
  let ?s3 = "send_frame (Some (init_frame_i (ssn ?s2) (rsn ?s2) C_IC_NA_1 act)) True ?s2"
  let ?s4 = "send_frame (Some (init_frame_i (ssn ?s3) (rsn ?s3) C_CI_NA_1 act)) True ?s3"
  have "connect_retry_count s \<le> connect_retry_count ?s2"
    using crc_send_frame [of ?s1] by simp
  also have "\<dots> \<le> connect_retry_count ?s3" by (rule crc_send_frame)
  also have "\<dots> \<le> connect_retry_count ?s4" by (rule crc_send_frame)
  finally show ?thesis by (simp add: call_all_def Let_def)
qed

lemma crc_run_task: "connect_retry_count s \<le> connect_retry_count (run_task now s)"
proof -
  have "connect_retry_count s \<le> connect_retry_count (call_all now (s\<lparr>last_call_all_time_end := Some e\<rparr>))" for e
    using crc_call_all [of "s\<lparr>last_call_all_time_end := Some e\<rparr>" now] by simp
  then show ?thesis
    by (simp add: run_task_def rearm_task_def Let_def call_later_def split: option.splits)
qed

lemma crc_step: "connect_retry_count s \<le> connect_retry_count (step e s)"
  by (cases e)
    (simp_all add: crc_receive crc_reconnect crc_run_task crc_send_frame crc_check_to_send
       crc_disconnect_le)

lemma crc_run: "connect_retry_count s \<le> connect_retry_count (run es s)"
proof (induction es arbitrary: s)
  case Nil
  then show ?case by simp
next
  case (Cons e es)
  have "connect_retry_count s \<le> connect_retry_count (step e s)" by (rule crc_step)
  also have "\<dots> \<le> connect_retry_count (run es (step e s))" by (rule Cons.IH)
  finally show ?case by simp
qed

lemma crc_reconnect_ok:
  "connect_retry_count (reconnect Conn_ok s) = connect_retry_count s"
  by (simp add: reconnect_def Let_def send_frame_def init_frame_u_def catch_disconnect_def
        send_u_def encode_write_if encodable_def writer_write_def change_device_status_def
        create_task_def)

lemma crc_receive_startdt_con:
  "connect_retry_count (receive (Read_frame (init_frame_u STARTDT_CON)) now s)
     = connect_retry_count s"
proof -
  have r: "receive_frame (init_frame_u STARTDT_CON) t s'
          = handle_u_try STARTDT_CON (init_frame_u STARTDT_CON) s'" for s' t
    by (simp add: receive_frame_def handle_u_def init_frame_u_def)
  show ?thesis by (simp add: r)
qed

text \<open>
  C6, as the code has it. \<open>connect_retry_count\<close> grows by one each time
  \<^verbatim>\<open>disconnect(reconnect=True)\<close> schedules a reconnect (none was pending), and nothing
  resets it: no sequence of events of the session makes it smaller, and the steps that
  start the session, the successful \<^verbatim>\<open>reconnect\<close> and the received STARTDT_CON, leave it
  as it is.
\<close>

theorem connect_retry_count_never_reset:
  "connect_retry_count s \<le> connect_retry_count (run es s) \<and>
   connect_retry_count (reconnect Conn_ok s) = connect_retry_count s \<and>
   connect_retry_count (receive (Read_frame (init_frame_u STARTDT_CON)) now s)
     = connect_retry_count s \<and>
   (reconnect_handler s = None \<longrightarrow>
      connect_retry_count (disconnect True s) = connect_retry_count s + 1)"
  using crc_run [of s es] crc_reconnect_ok [of s] crc_receive_startdt_con [of now s]
    crc_disconnect [of True s]
  by (simp del: receive.simps)

text \<open>The theorem after a failed first attempt, and at \<open>started_device\<close>, where no
  reconnect is pending.\<close>

theorem connect_retry_count_never_reset_witness:
  "connect_retry_count (run [Ev_reconnect Conn_failed] init_device) = 1 \<and>
   connect_retry_count (run [Ev_reconnect Conn_failed] init_device)
     \<le> connect_retry_count (run start_events (run [Ev_reconnect Conn_failed] init_device)) \<and>
   reconnect_handler started_device = None \<and>
   connect_retry_count (disconnect True started_device) = 1"
proof -
  have a: "connect_retry_count (run [Ev_reconnect Conn_failed] init_device) = 1"
    "reconnect_handler started_device = None" "connect_retry_count started_device = 0"
    by code_simp+
  show ?thesis
    using a
      connect_retry_count_never_reset [of "run [Ev_reconnect Conn_failed] init_device"
        start_events 0]
      connect_retry_count_never_reset [of started_device "[]" 0]
    by simp
qed

text \<open>
  C6 as the claim states it fails: after one failed and one successful attempt the
  session has started (the link is up, STARTDT is confirmed, the queue is empty) and
  \<open>connect_retry_count\<close> is still 1.
\<close>

theorem connect_retry_count_counterexample:
  "connect_retry_count (run retried_events init_device) = 1 \<and>
   connected (run retried_events init_device) = True \<and>
   send_list (run retried_events init_device) = [] \<and>
   map_option (map APCI1 \<circ> sent) (writer (run retried_events init_device))
     = Some [U STARTDT_ACT]"
  by code_simp

subsection \<open>Handles along the send path\<close>

lemma handles_le_update [simp]:
  "handles_le s0 (s\<lparr>coll_interval := x0\<rparr>) = handles_le s0 s"
  "handles_le s0 (s\<lparr>ssn := x1\<rparr>) = handles_le s0 s"
  "handles_le s0 (s\<lparr>rsn := x2\<rparr>) = handles_le s0 s"
  "handles_le s0 (s\<lparr>k := x3\<rparr>) = handles_le s0 s"
  "handles_le s0 (s\<lparr>w := x4\<rparr>) = handles_le s0 s"
  "handles_le s0 (s\<lparr>send_list := x5\<rparr>) = handles_le s0 s"
  "handles_le s0 (s\<lparr>last_call_all_time_begin := x6\<rparr>) = handles_le s0 s"
  "handles_le s0 (s\<lparr>last_call_all_time_end := x7\<rparr>) = handles_le s0 s"
  "handles_le s0 (s\<lparr>connect_retry_count := x8\<rparr>) = handles_le s0 s"
  "handles_le s0 (s\<lparr>user_canceled := x9\<rparr>) = handles_le s0 s"
  "handles_le s0 (s\<lparr>writer := x10\<rparr>) = handles_le s0 s"
  "handles_le s0 (s\<lparr>reconnect_handler := x11\<rparr>) = handles_le s0 s"
  "handles_le s0 (s\<lparr>task_handler := x12\<rparr>) = handles_le s0 s"
  "handles_le s0 (s\<lparr>receive_handler := x13\<rparr>) = handles_le s0 s"
  "handles_le s0 (s\<lparr>t1 := x14\<rparr>) = handles_le s0 s"
  "handles_le s0 (s\<lparr>t2 := x15\<rparr>) = handles_le s0 s"
  "handles_le s0 (s\<lparr>t3 := x16\<rparr>) = handles_le s0 s"
  "handles_le s0 (s\<lparr>connected := x17\<rparr>) = handles_le s0 s"
  "handles_le s0 (s\<lparr>processed := x18\<rparr>) = handles_le s0 s"
  "handles_le s0 (s\<lparr>tasks := x20\<rparr>) = handles_le s0 s"
  by (simp_all add: handles_le_def)

lemma handles_le_prim [simp]:
  "handles_le s0 (create_task t s) = handles_le s0 s"
  "handles_le s0 (send_list_append f s) = handles_le s0 s"
  "handles_le s0 (inc_ssn s) = handles_le s0 s"
  "handles_le s0 (writer_close s) = handles_le s0 s"
  "handles_le s0 (change_device_status b s) = handles_le s0 s"
  "handles_le s0 (process_data ps m s) = handles_le s0 s"
  by (simp_all add: handles_le_def)

lemma valid_handle_update [simp]:
  "valid_handle ho (s\<lparr>coll_interval := x0\<rparr>) = valid_handle ho s"
  "valid_handle ho (s\<lparr>ssn := x1\<rparr>) = valid_handle ho s"
  "valid_handle ho (s\<lparr>rsn := x2\<rparr>) = valid_handle ho s"
  "valid_handle ho (s\<lparr>k := x3\<rparr>) = valid_handle ho s"
  "valid_handle ho (s\<lparr>w := x4\<rparr>) = valid_handle ho s"
  "valid_handle ho (s\<lparr>send_list := x5\<rparr>) = valid_handle ho s"
  "valid_handle ho (s\<lparr>last_call_all_time_begin := x6\<rparr>) = valid_handle ho s"
  "valid_handle ho (s\<lparr>last_call_all_time_end := x7\<rparr>) = valid_handle ho s"
  "valid_handle ho (s\<lparr>connect_retry_count := x8\<rparr>) = valid_handle ho s"
  "valid_handle ho (s\<lparr>user_canceled := x9\<rparr>) = valid_handle ho s"
  "valid_handle ho (s\<lparr>writer := x10\<rparr>) = valid_handle ho s"
  "valid_handle ho (s\<lparr>reconnect_handler := x11\<rparr>) = valid_handle ho s"
  "valid_handle ho (s\<lparr>task_handler := x12\<rparr>) = valid_handle ho s"
  "valid_handle ho (s\<lparr>receive_handler := x13\<rparr>) = valid_handle ho s"
  "valid_handle ho (s\<lparr>t1 := x14\<rparr>) = valid_handle ho s"
  "valid_handle ho (s\<lparr>t2 := x15\<rparr>) = valid_handle ho s"
  "valid_handle ho (s\<lparr>t3 := x16\<rparr>) = valid_handle ho s"
  "valid_handle ho (s\<lparr>connected := x17\<rparr>) = valid_handle ho s"
  "valid_handle ho (s\<lparr>processed := x18\<rparr>) = valid_handle ho s"
  "valid_handle ho (s\<lparr>tasks := x20\<rparr>) = valid_handle ho s"
  by (simp_all add: valid_handle_def split: option.splits)

lemma valid_handle_prim [simp]:
  "valid_handle ho (create_task t s) = valid_handle ho s"
  "valid_handle ho (send_list_append f s) = valid_handle ho s"
  "valid_handle ho (inc_ssn s) = valid_handle ho s"
  "valid_handle ho (writer_close s) = valid_handle ho s"
  "valid_handle ho (change_device_status b s) = valid_handle ho s"
  "valid_handle ho (process_data ps m s) = valid_handle ho s"
  by (simp_all add: valid_handle_def split: option.splits)

lemma stopped_update [simp]:
  "stopped ho (s\<lparr>coll_interval := x0\<rparr>) = stopped ho s"
  "stopped ho (s\<lparr>ssn := x1\<rparr>) = stopped ho s"
  "stopped ho (s\<lparr>rsn := x2\<rparr>) = stopped ho s"
  "stopped ho (s\<lparr>k := x3\<rparr>) = stopped ho s"
  "stopped ho (s\<lparr>w := x4\<rparr>) = stopped ho s"
  "stopped ho (s\<lparr>send_list := x5\<rparr>) = stopped ho s"
  "stopped ho (s\<lparr>last_call_all_time_begin := x6\<rparr>) = stopped ho s"
  "stopped ho (s\<lparr>last_call_all_time_end := x7\<rparr>) = stopped ho s"
  "stopped ho (s\<lparr>connect_retry_count := x8\<rparr>) = stopped ho s"
  "stopped ho (s\<lparr>user_canceled := x9\<rparr>) = stopped ho s"
  "stopped ho (s\<lparr>writer := x10\<rparr>) = stopped ho s"
  "stopped ho (s\<lparr>reconnect_handler := x11\<rparr>) = stopped ho s"
  "stopped ho (s\<lparr>task_handler := x12\<rparr>) = stopped ho s"
  "stopped ho (s\<lparr>receive_handler := x13\<rparr>) = stopped ho s"
  "stopped ho (s\<lparr>t1 := x14\<rparr>) = stopped ho s"
  "stopped ho (s\<lparr>t2 := x15\<rparr>) = stopped ho s"
  "stopped ho (s\<lparr>t3 := x16\<rparr>) = stopped ho s"
  "stopped ho (s\<lparr>connected := x17\<rparr>) = stopped ho s"
  "stopped ho (s\<lparr>processed := x18\<rparr>) = stopped ho s"
  "stopped ho (s\<lparr>tasks := x20\<rparr>) = stopped ho s"
  by (simp_all add: stopped_def split: option.splits)

lemma stopped_prim [simp]:
  "stopped ho (create_task t s) = stopped ho s"
  "stopped ho (send_list_append f s) = stopped ho s"
  "stopped ho (inc_ssn s) = stopped ho s"
  "stopped ho (writer_close s) = stopped ho s"
  "stopped ho (change_device_status b s) = stopped ho s"
  "stopped ho (process_data ps m s) = stopped ho s"
  by (simp_all add: stopped_def split: option.splits)

lemma handles_le_cont [simp]:
  "handles_le s0 s \<Longrightarrow> handles_le s0 (stop_timer tid s)"
  "handles_le s0 s \<Longrightarrow> handles_le s0 (start_timer tid s)"
  "handles_le s0 s \<Longrightarrow> handles_le s0 (cancel h s)"
  "handles_le s0 s \<Longrightarrow> handles_le s0 (disconnect r s)"
  "handles_le s0 s \<Longrightarrow> handles_le s0 (snd (call_later d cb s))"
  by (meson handles_le_trans handles_le_stop_timer handles_le_start_timer handles_le_cancel
        handles_le_disconnect handles_le_call_later)+

lemma handles_le_writer_write [simp]:
  "handles_le s0 s \<Longrightarrow> handles_le s0 (res_state (writer_write f s))"
  by (simp add: encode_write_if writer_write_def split: option.splits)

lemma handles_le_send_s [simp]:
  "handles_le s0 s \<Longrightarrow> handles_le s0 (res_state (send_s f s))"
  by (simp add: send_s_def encode_write_if writer_write_def Let_def split: option.splits)

lemma handles_le_send_u [simp]:
  "handles_le s0 s \<Longrightarrow> handles_le s0 (res_state (send_u u f c s))"
  by (simp add: send_u_def encode_write_if writer_write_def Let_def split: option.splits)

lemma handles_le_send_i_write [simp]:
  "handles_le s0 s \<Longrightarrow> handles_le s0 (res_state (send_i_write f c s))"
  by (simp add: send_i_write_def encode_write_if writer_write_def Let_def split: option.splits)

lemma handles_le_send_i [simp]:
  "handles_le s0 s \<Longrightarrow> handles_le s0 (res_state (send_i f c s))"
  by (simp add: send_i_def split: option.splits)

lemma handles_le_catch [simp]:
  "handles_le s0 (res_state r) \<Longrightarrow> handles_le s0 (catch_disconnect r)"
  by (cases r) (auto simp: catch_disconnect_def)

lemma handles_le_send_frame [simp]:
  "handles_le s0 s \<Longrightarrow> handles_le s0 (send_frame fo c s)"
  by (cases fo) (simp_all add: send_frame_def split: apci1.splits)

lemma rh_writer_write [simp]:
  "reconnect_handler (res_state (writer_write f s)) = reconnect_handler s"
  by (simp add: encode_write_if writer_write_def split: option.splits)

lemma rh_send_s [simp]: "reconnect_handler (res_state (send_s f s)) = reconnect_handler s"
  by (simp add: send_s_def encode_write_if writer_write_def Let_def split: option.splits)

lemma rh_send_u [simp]: "reconnect_handler (res_state (send_u u f c s)) = reconnect_handler s"
  by (simp add: send_u_def encode_write_if writer_write_def Let_def split: option.splits)

lemma rh_send_i_write [simp]:
  "reconnect_handler (res_state (send_i_write f c s)) = reconnect_handler s"
  by (simp add: send_i_write_def encode_write_if writer_write_def Let_def split: option.splits)

lemma rh_send_i [simp]: "reconnect_handler (res_state (send_i f c s)) = reconnect_handler s"
  by (simp add: send_i_def split: option.splits)

lemma rh_disconnect:
  "reconnect_handler (disconnect r s)
     = (if r \<and> reconnect_handler s = None then Some (length (handles s))
        else reconnect_handler s)"
  by (simp add: disconnect_def disconnect_handler_def Let_def call_later_def
        change_device_status_def split: option.splits)

lemma length_handles_disconnect:
  "length (handles (disconnect r s))
     = (if r \<and> reconnect_handler s = None then Suc (length (handles s))
        else length (handles s))"
  by (simp add: handles_disconnect disconnect_handler_def Let_def call_later_def
        split: option.splits)

lemma rh_valid_disconnect: "rh_valid s \<Longrightarrow> rh_valid (disconnect r s)"
  by (auto simp: rh_valid_def rh_disconnect valid_handle_def length_handles_disconnect
        split: option.splits)

lemma rh_valid_send_frame:
  assumes v: "rh_valid s"
  shows "rh_valid (send_frame fo c s)"
proof (cases fo)
  case None
  then show ?thesis using v by (simp add: send_frame_def)
next
  case (Some f)
  let ?r = "case APCI1 f of S \<Rightarrow> send_s f s | U u \<Rightarrow> send_u u f c s | I n \<Rightarrow> send_i f c s"
  have "reconnect_handler (res_state ?r) = reconnect_handler s"
    by (cases "APCI1 f") simp_all
  moreover have "handles_le s (res_state ?r)"
    by (cases "APCI1 f") simp_all
  ultimately have "rh_valid (res_state ?r)"
    using v valid_handle_mono by (simp add: rh_valid_def)
  then have "rh_valid (catch_disconnect ?r)"
    by (cases ?r) (auto simp: catch_disconnect_def rh_valid_disconnect)
  then show ?thesis using Some by (simp add: send_frame_def)
qed


subsection \<open>C4: the reconnect timer\<close>

lemma nth_stop_timer:
  "get_timer tid s \<noteq> Some i \<Longrightarrow> handles (stop_timer tid s) ! i = handles s ! i"
  by (cases tid; auto simp: stop_timer_def cancel_def split: option.splits)

lemma valid_handle_neq:
  "valid_handle ho s \<Longrightarrow> length (handles s) \<le> i \<Longrightarrow> ho \<noteq> Some i"
  by (auto simp: valid_handle_def)

lemma disconnect_arms_timer:
  assumes "valid_handle (t1 s) s" "valid_handle (t2 s) s" "valid_handle (t3 s) s"
    and "reconnect_handler s = None"
  shows "reconnect_handler (disconnect True s) = Some (length (handles s)) \<and>
         length (handles (disconnect True s)) = Suc (length (handles s)) \<and>
         handles (disconnect True s) ! length (handles s)
           = \<lparr>delay = 3, callback = CB_reconnect, cancelled = False\<rparr>"
proof -
  let ?n = "length (handles s)"
  let ?s1 = "disconnect_handler True s"
  let ?s2 = "stop_timer T1 ?s1"
  let ?s3 = "stop_timer T2 ?s2"
  have h1: "handles ?s1 = handles s @ [\<lparr>delay = 3, callback = CB_reconnect, cancelled = False\<rparr>]"
    using assms(4) by (simp add: disconnect_handler_def call_later_def)
  have a: "get_timer T1 ?s1 \<noteq> Some ?n" "get_timer T2 ?s2 \<noteq> Some ?n"
    "get_timer T3 ?s3 \<noteq> Some ?n"
    using assms(1-3) valid_handle_neq [of _ s ?n] by simp_all
  have "handles (disconnect True s) ! ?n = handles ?s1 ! ?n"
    using a by (simp add: handles_disconnect nth_stop_timer)
  then show ?thesis
    using assms(4) h1 by (simp add: rh_disconnect length_handles_disconnect)
qed

lemma stopped_disconnect_user:
  assumes "rh_valid s"
  shows "stopped (reconnect_handler (disconnect False s)) (disconnect False s)"
proof (cases "reconnect_handler s")
  case None
  then show ?thesis by (simp add: rh_disconnect stopped_def)
next
  case (Some h)
  let ?s1 = "disconnect_handler False s"
  have "h < length (handles s)"
    using assms Some by (simp add: rh_valid_def valid_handle_def)
  then have "stopped (Some h) ?s1"
    using Some by (simp add: disconnect_handler_def Let_def stopped_def cancel_def)
  moreover have "handles_le ?s1 (stop_timer T3 (stop_timer T2 (stop_timer T1 ?s1)))"
    by simp
  then have "handles_le ?s1 (disconnect False s)"
    by (simp add: handles_le_def handles_disconnect)
  ultimately have "stopped (Some h) (disconnect False s)"
    by (rule stopped_mono)
  then show ?thesis using Some by (simp add: rh_disconnect)
qed

lemma user_canceled_disconnect [simp]: "user_canceled (disconnect False s)"
  by (simp add: disconnect_def disconnect_handler_def Let_def change_device_status_def
        split: option.splits)

lemma receive_stopdt_act:
  "APCI1 frame = U STOPDT_ACT \<Longrightarrow>
   receive (Read_frame frame) now s
     = disconnect False
         (send_frame (Some (init_frame_u STOPDT_CON)) True
            (create_task (Task_save_frame frame False) (receive_started s)))"
  by (simp add: receive_frame_def handle_u_def)

text \<open>
  C4, as the code has it. \<^verbatim>\<open>disconnect(reconnect=True)\<close>, called while no reconnect is
  pending, arms a one-shot handle with delay 3 whose callback is the reconnect. The
  disconnect after a received STOPDT_ACT is \<^verbatim>\<open>self.disconnect()\<close>, with \<open>reconnect\<close>
  false: the session is marked \<open>user_canceled\<close> and is left without a live reconnect
  handle (there is none, or the one there is has been cancelled).
\<close>

theorem reconnect_timer_policy:
  assumes "valid_handle (t1 s) s" "valid_handle (t2 s) s" "valid_handle (t3 s) s"
    and "valid_handle (reconnect_handler s) s"
  shows "(reconnect_handler s = None \<longrightarrow>
            reconnect_handler (disconnect True s) = Some (length (handles s)) \<and>
            length (handles (disconnect True s)) = Suc (length (handles s)) \<and>
            handles (disconnect True s) ! length (handles s)
              = \<lparr>delay = 3, callback = CB_reconnect, cancelled = False\<rparr>) \<and>
         (APCI1 frame = U STOPDT_ACT \<longrightarrow>
            user_canceled (receive (Read_frame frame) now s) \<and>
            stopped (reconnect_handler (receive (Read_frame frame) now s))
              (receive (Read_frame frame) now s))"
proof (intro conjI impI)
  assume "reconnect_handler s = None"
  then show "reconnect_handler (disconnect True s) = Some (length (handles s))"
    and "length (handles (disconnect True s)) = Suc (length (handles s))"
    and "handles (disconnect True s) ! length (handles s)
           = \<lparr>delay = 3, callback = CB_reconnect, cancelled = False\<rparr>"
    using disconnect_arms_timer [OF assms(1-3)] by simp_all
next
  assume u: "APCI1 frame = U STOPDT_ACT"
  let ?sa = "create_task (Task_save_frame frame False) (receive_started s)"
  let ?sb = "send_frame (Some (init_frame_u STOPDT_CON)) True ?sa"
  have "rh_valid ?sa"
    using assms(4) valid_handle_mono [OF _ handles_le_start_timer, of _ s T3]
    by (simp add: rh_valid_def receive_started_def)
  then have "rh_valid ?sb" by (rule rh_valid_send_frame)
  then have "stopped (reconnect_handler (disconnect False ?sb)) (disconnect False ?sb)"
    by (rule stopped_disconnect_user)
  then show "stopped (reconnect_handler (receive (Read_frame frame) now s))
               (receive (Read_frame frame) now s)"
    unfolding receive_stopdt_act [OF u] .
  show "user_canceled (receive (Read_frame frame) now s)"
    unfolding receive_stopdt_act [OF u] by simp
qed


text \<open>The theorem at \<open>started_device\<close>, where no reconnect is pending, and at
  \<open>pending_device\<close>, where handle 7 is the pending reconnect.\<close>

theorem reconnect_timer_policy_witness:
  "valid_handle (t1 started_device) started_device \<and>
   valid_handle (t2 started_device) started_device \<and>
   valid_handle (t3 started_device) started_device \<and>
   valid_handle (reconnect_handler started_device) started_device \<and>
   reconnect_handler started_device = None \<and>
   reconnect_handler (disconnect True started_device) = Some 4 \<and>
   handles (disconnect True started_device) ! 4
     = \<lparr>delay = 3, callback = CB_reconnect, cancelled = False\<rparr> \<and>
   valid_handle (t1 pending_device) pending_device \<and>
   valid_handle (t2 pending_device) pending_device \<and>
   valid_handle (t3 pending_device) pending_device \<and>
   valid_handle (reconnect_handler pending_device) pending_device \<and>
   reconnect_handler pending_device = Some 7 \<and>
   cancelled (handles pending_device ! 7) = False \<and>
   user_canceled (receive (Read_frame (init_frame_u STOPDT_ACT)) 2000 pending_device) \<and>
   stopped (Some 7) (receive (Read_frame (init_frame_u STOPDT_ACT)) 2000 pending_device)"
proof -
  have a: "valid_handle (t1 started_device) started_device"
    "valid_handle (t2 started_device) started_device"
    "valid_handle (t3 started_device) started_device"
    "valid_handle (reconnect_handler started_device) started_device"
    by code_simp+
  have b: "valid_handle (t1 pending_device) pending_device"
    "valid_handle (t2 pending_device) pending_device"
    "valid_handle (t3 pending_device) pending_device"
    "valid_handle (reconnect_handler pending_device) pending_device"
    by code_simp+
  have c: "reconnect_handler started_device = None" "length (handles started_device) = 4"
    "reconnect_handler pending_device = Some 7" "cancelled (handles pending_device ! 7) = False"
    "reconnect_handler (receive (Read_frame (init_frame_u STOPDT_ACT)) 2000 pending_device)
       = Some 7"
    "APCI1 (init_frame_u STOPDT_ACT) = U STOPDT_ACT"
    by code_simp+
  show ?thesis
    using a b c
      reconnect_timer_policy [OF a, of "init_frame_u STOPDT_ACT" 1000]
      reconnect_timer_policy [OF b, of "init_frame_u STOPDT_ACT" 2000]
    by simp
qed

text \<open>
  C4 as the claim states it fails: \<open>started_device\<close> receives STOPDT_ACT, answers
  STOPDT_CON and disconnects; afterwards there is no reconnect handle, and the loop holds
  no handle with delay 3 (its only reconnect handle is the one \<^verbatim>\<open>__init__\<close> made).
\<close>

theorem stopdt_act_counterexample:
  "reconnect_handler (receive (Read_frame (init_frame_u STOPDT_ACT)) 1000 started_device) = None \<and>
   user_canceled (receive (Read_frame (init_frame_u STOPDT_ACT)) 1000 started_device) = True \<and>
   connected (receive (Read_frame (init_frame_u STOPDT_ACT)) 1000 started_device) = False \<and>
   map callback (handles (receive (Read_frame (init_frame_u STOPDT_ACT)) 1000 started_device))
     = [CB_reconnect, CB_on_timer T1, CB_on_timer T3, CB_run_task, CB_on_timer T3] \<and>
   map delay (handles (receive (Read_frame (init_frame_u STOPDT_ACT)) 1000 started_device))
     = [0, 15, 20, 900, 20] \<and>
   map_option (map APCI1 \<circ> sent)
     (writer (receive (Read_frame (init_frame_u STOPDT_ACT)) 1000 started_device))
     = Some [U STARTDT_ACT, U STOPDT_CON]"
  by code_simp

subsection \<open>C7: the acknowledgement after W received I-frames\<close>

lemma w_kept_refl [simp]: "w_kept s s"
  by (simp add: w_kept_def)

lemma w_kept_zero [simp]: "w_kept s0 (s\<lparr>w := 0\<rparr>)" "w_kept s0 (disconnect r s)"
  by (simp_all add: w_kept_def)

lemma w_kept_trans: "w_kept s s' \<Longrightarrow> w_kept s' s'' \<Longrightarrow> w_kept s s''"
  by (auto simp: w_kept_def)


lemma w_kept_update [simp]:
  "w_kept s0 (s\<lparr>coll_interval := x0\<rparr>) = w_kept s0 s"
  "w_kept s0 (s\<lparr>ssn := x1\<rparr>) = w_kept s0 s"
  "w_kept s0 (s\<lparr>rsn := x2\<rparr>) = w_kept s0 s"
  "w_kept s0 (s\<lparr>k := x3\<rparr>) = w_kept s0 s"
  "w_kept s0 (s\<lparr>send_list := x5\<rparr>) = w_kept s0 s"
  "w_kept s0 (s\<lparr>last_call_all_time_begin := x6\<rparr>) = w_kept s0 s"
  "w_kept s0 (s\<lparr>last_call_all_time_end := x7\<rparr>) = w_kept s0 s"
  "w_kept s0 (s\<lparr>connect_retry_count := x8\<rparr>) = w_kept s0 s"
  "w_kept s0 (s\<lparr>user_canceled := x9\<rparr>) = w_kept s0 s"
  "w_kept s0 (s\<lparr>writer := x10\<rparr>) = w_kept s0 s"
  "w_kept s0 (s\<lparr>reconnect_handler := x11\<rparr>) = w_kept s0 s"
  "w_kept s0 (s\<lparr>task_handler := x12\<rparr>) = w_kept s0 s"
  "w_kept s0 (s\<lparr>receive_handler := x13\<rparr>) = w_kept s0 s"
  "w_kept s0 (s\<lparr>t1 := x14\<rparr>) = w_kept s0 s"
  "w_kept s0 (s\<lparr>t2 := x15\<rparr>) = w_kept s0 s"
  "w_kept s0 (s\<lparr>t3 := x16\<rparr>) = w_kept s0 s"
  "w_kept s0 (s\<lparr>connected := x17\<rparr>) = w_kept s0 s"
  "w_kept s0 (s\<lparr>processed := x18\<rparr>) = w_kept s0 s"
  "w_kept s0 (s\<lparr>handles := x19\<rparr>) = w_kept s0 s"
  "w_kept s0 (s\<lparr>tasks := x20\<rparr>) = w_kept s0 s"
  by (simp_all add: w_kept_def)

lemma w_kept_prim [simp]:
  "w_kept s0 (create_task t s) = w_kept s0 s"
  "w_kept s0 (send_list_append f s) = w_kept s0 s"
  "w_kept s0 (inc_ssn s) = w_kept s0 s"
  "w_kept s0 (writer_close s) = w_kept s0 s"
  "w_kept s0 (change_device_status b s) = w_kept s0 s"
  "w_kept s0 (process_data ps m s) = w_kept s0 s"
  "w_kept s0 (stop_timer tid s) = w_kept s0 s"
  "w_kept s0 (start_timer tid s) = w_kept s0 s"
  "w_kept s0 (cancel h s) = w_kept s0 s"
  "w_kept s0 (snd (call_later d cb s)) = w_kept s0 s"
  by (simp_all add: w_kept_def call_later_def)

lemma w_kept_writer_write [simp]:
  "w_kept s0 s \<Longrightarrow> w_kept s0 (res_state (writer_write f s))"
  by (simp add: encode_write_if writer_write_def split: option.splits)

lemma w_kept_send_s [simp]: "w_kept s0 s \<Longrightarrow> w_kept s0 (res_state (send_s f s))"
  by (simp add: send_s_def encode_write_if writer_write_def Let_def split: option.splits)

lemma w_kept_send_u [simp]: "w_kept s0 s \<Longrightarrow> w_kept s0 (res_state (send_u u f c s))"
  by (simp add: send_u_def encode_write_if writer_write_def Let_def split: option.splits)

lemma w_kept_send_i_write [simp]:
  "w_kept s0 s \<Longrightarrow> w_kept s0 (res_state (send_i_write f c s))"
  by (simp add: send_i_write_def encode_write_if writer_write_def Let_def split: option.splits)

lemma w_kept_send_i [simp]: "w_kept s0 s \<Longrightarrow> w_kept s0 (res_state (send_i f c s))"
  by (simp add: send_i_def split: option.splits)

lemma w_kept_catch [simp]: "w_kept s0 (res_state r) \<Longrightarrow> w_kept s0 (catch_disconnect r)"
  by (cases r) (auto simp: catch_disconnect_def)

lemma w_kept_send_frame [simp]: "w_kept s0 s \<Longrightarrow> w_kept s0 (send_frame fo c s)"
  by (cases fo) (simp_all add: send_frame_def split: apci1.splits)


lemma w_kept_send_head [simp]: "w_kept s0 s \<Longrightarrow> w_kept s0 (send_head s)"
  by (simp add: send_head_def Let_def split: list.splits)

lemma w_kept_check_to_send_try [simp]:
  "w_kept s0 s \<Longrightarrow> w_kept s0 (res_state (check_to_send_try fo s))"
  by (simp add: check_to_send_try_def Let_def split: option.splits list.splits)

lemma w_kept_check_to_send [simp]: "w_kept s0 s \<Longrightarrow> w_kept s0 (check_to_send fo s)"
  by (simp add: check_to_send_def)

lemma w_kept_dispatch_i [simp]:
  "w_kept s0 s \<Longrightarrow> w_kept s0 (res_state (dispatch_i f a now s))"
  by (simp add: dispatch_i_def split: sum.splits bool.splits)

lemma w_kept_handle_i_try [simp]:
  "w_kept s0 s \<Longrightarrow> w_kept s0 (res_state (handle_i_try f now s))"
  by (simp add: handle_i_try_def Let_def split: option.splits)

lemma w_kept_handle_i [simp]: "w_kept s0 s \<Longrightarrow> w_kept s0 (handle_i f now s)"
  by (simp add: handle_i_def)

lemma w_kept_drop_own [simp]: "w_kept s0 s \<Longrightarrow> w_kept s0 (drop_own u s)"
  by (simp add: drop_own_def split: list.splits)

lemma w_kept_handle_u_try [simp]: "w_kept s0 s \<Longrightarrow> w_kept s0 (handle_u_try u f s)"
  by (cases u) simp_all

lemma w_kept_handle_u [simp]: "w_kept s0 s \<Longrightarrow> w_kept s0 (handle_u f s)"
  by (simp add: handle_u_def split: apci1.splits)

lemma w_kept_receive_started [simp]: "w_kept s0 (receive_started s) = w_kept s0 s"
  by (simp add: receive_started_def)

lemma w_kept_on_timer [simp]: "w_kept s0 s \<Longrightarrow> w_kept s0 (on_timer tid s)"
  by (cases tid) (simp_all add: call_soon_def call_later_def)

lemma w_kept_reconnect [simp]: "w_kept s0 s \<Longrightarrow> w_kept s0 (reconnect r s)"
  by (cases r) (simp_all add: reconnect_def Let_def)

lemma w_kept_call_all [simp]: "w_kept s0 s \<Longrightarrow> w_kept s0 (call_all now s)"
  by (simp add: call_all_def Let_def)

lemma w_kept_run_task [simp]: "w_kept s0 s \<Longrightarrow> w_kept s0 (run_task now s)"
  by (simp add: run_task_def rearm_task_def Let_def call_later_def split: option.splits)



lemma check_seq_fields [simp]:
  "reconnect_handler (snd (check_seq f s)) = reconnect_handler s"
  "writer (snd (check_seq f s)) = writer s"
  by (simp_all add: check_seq_def split: apci1.splits)

lemma w_check_seq: "w (snd (check_seq f s)) = w s \<or> (\<exists>n. APCI1 f = I n)"
  by (simp add: check_seq_def split: apci1.splits)




lemma sent_of_update [simp]:
  "sent_of (s\<lparr>coll_interval := x0\<rparr>) = sent_of s"
  "sent_of (s\<lparr>ssn := x1\<rparr>) = sent_of s"
  "sent_of (s\<lparr>rsn := x2\<rparr>) = sent_of s"
  "sent_of (s\<lparr>k := x3\<rparr>) = sent_of s"
  "sent_of (s\<lparr>w := x4\<rparr>) = sent_of s"
  "sent_of (s\<lparr>send_list := x5\<rparr>) = sent_of s"
  "sent_of (s\<lparr>last_call_all_time_begin := x6\<rparr>) = sent_of s"
  "sent_of (s\<lparr>last_call_all_time_end := x7\<rparr>) = sent_of s"
  "sent_of (s\<lparr>connect_retry_count := x8\<rparr>) = sent_of s"
  "sent_of (s\<lparr>user_canceled := x9\<rparr>) = sent_of s"
  "sent_of (s\<lparr>reconnect_handler := x11\<rparr>) = sent_of s"
  "sent_of (s\<lparr>task_handler := x12\<rparr>) = sent_of s"
  "sent_of (s\<lparr>receive_handler := x13\<rparr>) = sent_of s"
  "sent_of (s\<lparr>t1 := x14\<rparr>) = sent_of s"
  "sent_of (s\<lparr>t2 := x15\<rparr>) = sent_of s"
  "sent_of (s\<lparr>t3 := x16\<rparr>) = sent_of s"
  "sent_of (s\<lparr>connected := x17\<rparr>) = sent_of s"
  "sent_of (s\<lparr>processed := x18\<rparr>) = sent_of s"
  "sent_of (s\<lparr>handles := x19\<rparr>) = sent_of s"
  "sent_of (s\<lparr>tasks := x20\<rparr>) = sent_of s"
  by (simp_all add: sent_of_def)

lemma sent_of_prim [simp]:
  "sent_of (create_task t s) = sent_of s"
  "sent_of (send_list_append f s) = sent_of s"
  "sent_of (inc_ssn s) = sent_of s"
  "sent_of (writer_close s) = sent_of s"
  "sent_of (change_device_status b s) = sent_of s"
  "sent_of (process_data ps m s) = sent_of s"
  "sent_of (stop_timer tid s) = sent_of s"
  "sent_of (start_timer tid s) = sent_of s"
  "sent_of (cancel h s) = sent_of s"
  "sent_of (snd (call_later d cb s)) = sent_of s"
  "sent_of (disconnect r s) = sent_of s"
  by (simp_all add: sent_of_def call_later_def writer_close_def disconnect_def Let_def
        disconnect_handler_def change_device_status_def split: option.splits)

lemma sent_ext_refl [simp]: "sent_ext s s"
  by (simp add: sent_ext_def)

lemma sent_ext_same: "sent_of s' = sent_of s \<Longrightarrow> sent_ext s0 s' = sent_ext s0 s"
  by (simp add: sent_ext_def)

lemma sent_ext_write:
  assumes "sent_ext s0 s" "writer s = Some wr" "APCI1 f \<noteq> S"
  shows "sent_ext s0 (s\<lparr>writer := Some (wr\<lparr>sent := sent wr @ [f]\<rparr>)\<rparr>)"
proof -
  obtain rest where r: "sent_of s = sent_of s0 @ rest" "\<forall>f \<in> set rest. APCI1 f \<noteq> S"
    using assms(1) by (auto simp: sent_ext_def)
  have "sent_of (s\<lparr>writer := Some (wr\<lparr>sent := sent wr @ [f]\<rparr>)\<rparr>) = sent_of s0 @ (rest @ [f])"
    using r(1) assms(2) by (simp add: sent_of_def)
  moreover have "\<forall>g \<in> set (rest @ [f]). APCI1 g \<noteq> S"
    using r(2) assms(3) by auto
  ultimately show ?thesis unfolding sent_ext_def by blast
qed
lemma sent_ext_update [simp]:
  "sent_ext s0 (s\<lparr>coll_interval := x0\<rparr>) = sent_ext s0 s"
  "sent_ext s0 (s\<lparr>ssn := x1\<rparr>) = sent_ext s0 s"
  "sent_ext s0 (s\<lparr>rsn := x2\<rparr>) = sent_ext s0 s"
  "sent_ext s0 (s\<lparr>k := x3\<rparr>) = sent_ext s0 s"
  "sent_ext s0 (s\<lparr>w := x4\<rparr>) = sent_ext s0 s"
  "sent_ext s0 (s\<lparr>send_list := x5\<rparr>) = sent_ext s0 s"
  "sent_ext s0 (s\<lparr>last_call_all_time_begin := x6\<rparr>) = sent_ext s0 s"
  "sent_ext s0 (s\<lparr>last_call_all_time_end := x7\<rparr>) = sent_ext s0 s"
  "sent_ext s0 (s\<lparr>connect_retry_count := x8\<rparr>) = sent_ext s0 s"
  "sent_ext s0 (s\<lparr>user_canceled := x9\<rparr>) = sent_ext s0 s"
  "sent_ext s0 (s\<lparr>reconnect_handler := x11\<rparr>) = sent_ext s0 s"
  "sent_ext s0 (s\<lparr>task_handler := x12\<rparr>) = sent_ext s0 s"
  "sent_ext s0 (s\<lparr>receive_handler := x13\<rparr>) = sent_ext s0 s"
  "sent_ext s0 (s\<lparr>t1 := x14\<rparr>) = sent_ext s0 s"
  "sent_ext s0 (s\<lparr>t2 := x15\<rparr>) = sent_ext s0 s"
  "sent_ext s0 (s\<lparr>t3 := x16\<rparr>) = sent_ext s0 s"
  "sent_ext s0 (s\<lparr>connected := x17\<rparr>) = sent_ext s0 s"
  "sent_ext s0 (s\<lparr>processed := x18\<rparr>) = sent_ext s0 s"
  "sent_ext s0 (s\<lparr>handles := x19\<rparr>) = sent_ext s0 s"
  "sent_ext s0 (s\<lparr>tasks := x20\<rparr>) = sent_ext s0 s"
  by (simp_all add: sent_ext_def)

lemma sent_ext_prim [simp]:
  "sent_ext s0 (create_task t s) = sent_ext s0 s"
  "sent_ext s0 (send_list_append f s) = sent_ext s0 s"
  "sent_ext s0 (inc_ssn s) = sent_ext s0 s"
  "sent_ext s0 (writer_close s) = sent_ext s0 s"
  "sent_ext s0 (change_device_status b s) = sent_ext s0 s"
  "sent_ext s0 (process_data ps m s) = sent_ext s0 s"
  "sent_ext s0 (stop_timer tid s) = sent_ext s0 s"
  "sent_ext s0 (start_timer tid s) = sent_ext s0 s"
  "sent_ext s0 (cancel h s) = sent_ext s0 s"
  "sent_ext s0 (snd (call_later d cb s)) = sent_ext s0 s"
  "sent_ext s0 (disconnect r s) = sent_ext s0 s"
  by (simp_all add: sent_ext_def)

lemma sent_ext_writer_write:
  "sent_ext s0 s \<Longrightarrow> APCI1 f \<noteq> S \<Longrightarrow> sent_ext s0 (res_state (writer_write f s))"
  by (simp add: encode_write_if writer_write_def sent_ext_write split: option.splits)

lemma sent_ext_send_u [simp]:
  "sent_ext s0 s \<Longrightarrow> APCI1 f \<noteq> S \<Longrightarrow> sent_ext s0 (res_state (send_u u f c s))"
  by (simp add: send_u_def encode_write_if writer_write_def sent_ext_write Let_def split: option.splits)

lemma sent_ext_send_i_write [simp]:
  "sent_ext s0 s \<Longrightarrow> sent_ext s0 (res_state (send_i_write f c s))"
  by (simp add: send_i_write_def encode_write_if writer_write_def sent_ext_write Let_def
        split: option.splits)

lemma sent_ext_send_i [simp]:
  "sent_ext s0 s \<Longrightarrow> sent_ext s0 (res_state (send_i f c s))"
  by (simp add: send_i_def split: option.splits)

lemma sent_ext_catch [simp]: "sent_ext s0 (res_state r) \<Longrightarrow> sent_ext s0 (catch_disconnect r)"
  by (cases r) (auto simp: catch_disconnect_def)

lemma sent_ext_send_frame:
  "sent_ext s0 s \<Longrightarrow> APCI1 f \<noteq> S \<Longrightarrow> sent_ext s0 (send_frame (Some f) c s)"
  by (simp add: send_frame_def split: apci1.splits)



lemma sent_ext_no_s:
  assumes "sent_ext s s'"
  shows "take (length (sent_of s)) (sent_of s') = sent_of s \<and> s_frames (written s s') = []"
  using assms by (auto simp: sent_ext_def written_def s_frames_def)




lemma sent_of_receive_started [simp]: "sent_of (receive_started s) = sent_of s"
  by (simp add: receive_started_def)





subsection \<open>C8: the periodic scheduler\<close>

lemma sched_writer_write [simp]:
  "last_call_all_time_begin (res_state (writer_write f s)) = last_call_all_time_begin s"
  "last_call_all_time_end (res_state (writer_write f s)) = last_call_all_time_end s"
  "coll_interval (res_state (writer_write f s)) = coll_interval s"
  "task_handler (res_state (writer_write f s)) = task_handler s"
  by (simp_all add: writer_write_def split: option.splits)

lemma sched_send_s [simp]:
  "last_call_all_time_begin (res_state (send_s f s)) = last_call_all_time_begin s"
  "last_call_all_time_end (res_state (send_s f s)) = last_call_all_time_end s"
  "coll_interval (res_state (send_s f s)) = coll_interval s"
  "task_handler (res_state (send_s f s)) = task_handler s"
  by (simp_all add: send_s_def encode_write_if writer_write_def Let_def split: option.splits)

lemma sched_send_u [simp]:
  "last_call_all_time_begin (res_state (send_u u f c s)) = last_call_all_time_begin s"
  "last_call_all_time_end (res_state (send_u u f c s)) = last_call_all_time_end s"
  "coll_interval (res_state (send_u u f c s)) = coll_interval s"
  "task_handler (res_state (send_u u f c s)) = task_handler s"
  by (simp_all add: send_u_def encode_write_if writer_write_def Let_def split: option.splits)

lemma sched_send_i_write [simp]:
  "last_call_all_time_begin (res_state (send_i_write f c s)) = last_call_all_time_begin s"
  "last_call_all_time_end (res_state (send_i_write f c s)) = last_call_all_time_end s"
  "coll_interval (res_state (send_i_write f c s)) = coll_interval s"
  "task_handler (res_state (send_i_write f c s)) = task_handler s"
  by (simp_all add: send_i_write_def encode_write_if writer_write_def Let_def
        split: option.splits)

lemma sched_send_i [simp]:
  "last_call_all_time_begin (res_state (send_i f c s)) = last_call_all_time_begin s"
  "last_call_all_time_end (res_state (send_i f c s)) = last_call_all_time_end s"
  "coll_interval (res_state (send_i f c s)) = coll_interval s"
  "task_handler (res_state (send_i f c s)) = task_handler s"
  by (simp_all add: send_i_def split: option.splits)

lemma sched_catch:
  "last_call_all_time_begin (catch_disconnect r) = last_call_all_time_begin (res_state r)"
  "last_call_all_time_end (catch_disconnect r) = last_call_all_time_end (res_state r)"
  "coll_interval (catch_disconnect r) = coll_interval (res_state r)"
  "task_handler (catch_disconnect r) = task_handler (res_state r)"
  by (cases r; auto simp: catch_disconnect_def)+

lemma sched_send_frame [simp]:
  "last_call_all_time_begin (send_frame fo c s) = last_call_all_time_begin s"
  "last_call_all_time_end (send_frame fo c s) = last_call_all_time_end s"
  "coll_interval (send_frame fo c s) = coll_interval s"
  "task_handler (send_frame fo c s) = task_handler s"
  by (cases fo; simp add: send_frame_def sched_catch split: apci1.splits)+

lemma sched_send_acts [simp]:
  "last_call_all_time_begin (send_acts typs s) = last_call_all_time_begin s"
  "last_call_all_time_end (send_acts typs s) = last_call_all_time_end s"
  "coll_interval (send_acts typs s) = coll_interval s"
  "task_handler (send_acts typs s) = task_handler s"
  by (induction typs arbitrary: s; simp)+

lemma handles_le_send_acts [simp]: "handles_le s0 s \<Longrightarrow> handles_le s0 (send_acts typs s)"
  by (induction typs arbitrary: s) simp_all

lemma sent_ext_send_acts [simp]: "sent_ext s0 s \<Longrightarrow> sent_ext s0 (send_acts typs s)"
  by (induction typs arbitrary: s) (simp_all add: sent_ext_send_frame init_frame_i_def)

lemma call_all_send_acts:
  "call_all now s
     = send_acts [C_CS_NA_1, C_IC_NA_1, C_CI_NA_1] (s\<lparr>last_call_all_time_begin := Some now\<rparr>)"
  by (simp add: call_all_def Let_def)

lemma send_frame_act_queue:
  assumes "send_list s \<noteq> []"
  shows "send_frame (Some (init_frame_i sn rn typ act)) True s
           = send_list_append (init_frame_i sn rn typ act) s"
  using assms
  by (simp add: send_frame_def send_i_def init_frame_i_def asdu_cause_def catch_disconnect_def)

lemma send_frame_act_write:
  assumes "send_list s = []" "writer s = Some wr" "\<not> closing wr"
    and "seq_ok (ssn s)" "seq_ok (rsn s)"
  shows "send_frame (Some (init_frame_i (ssn s) (rsn s) typ act)) True s
           = create_task (Task_save_frame (init_frame_i (ssn s) (rsn s) typ act) True)
               (send_list_append (init_frame_i (ssn s) (rsn s) typ act)
                  (start_timer T1
                     ((inc_ssn ((stop_timer T2 s)
                         \<lparr>writer := Some (wr\<lparr>sent := sent wr
                                                   @ [init_frame_i (ssn s) (rsn s) typ act]\<rparr>)\<rparr>))
                        \<lparr>k := k s + 1, w := 0\<rparr>)))"
  using assms
  by (simp add: send_frame_def send_i_def send_i_write_def encode_write_if encodable_def
        writer_write_def init_frame_i_def asdu_cause_def catch_disconnect_def Let_def inc_ssn_def)

lemma send_frame_act_fail:
  assumes "send_list s = []" "\<not> can_write s"
  shows "send_frame (Some (init_frame_i (ssn s) (rsn s) typ act)) True s
           = disconnect True (stop_timer T2 s)"
  using assms
  by (auto simp: send_frame_def send_i_def send_i_write_def encode_write_if encodable_def
        writer_write_def init_frame_i_def catch_disconnect_def Let_def can_write_def
        writer_open_def split: option.splits)

lemma not_can_write_disconnect [simp]: "\<not> can_write (disconnect r s)"
  by (simp add: can_write_def writer_open_def disconnect_def Let_def writer_close_def
        change_device_status_def split: option.splits)

lemma send_acts_queue:
  assumes "send_list s \<noteq> []"
  shows "send_acts [t1', t2', t3'] s
           = s\<lparr>send_list := send_list s
                  @ [init_frame_i (ssn s) (rsn s) t1' act, init_frame_i (ssn s) (rsn s) t2' act,
                     init_frame_i (ssn s) (rsn s) t3' act]\<rparr>"
  using assms by (simp add: send_frame_act_queue send_list_append_def)

lemma send_acts_write:
  assumes "send_list s = []" "can_write s"
  shows "send_list (send_acts [C_CS_NA_1, C_IC_NA_1, C_CI_NA_1] s)
           = call_frames (ssn s) (ssn (send_acts [C_CS_NA_1, C_IC_NA_1, C_CI_NA_1] s)) (rsn s) \<and>
         sent_of (send_acts [C_CS_NA_1, C_IC_NA_1, C_CI_NA_1] s)
           = sent_of s @ [init_frame_i (ssn s) (rsn s) C_CS_NA_1 act]"
proof -
  obtain wr where wr: "writer s = Some wr" "\<not> closing wr"
    using assms(2) by (auto simp: can_write_def writer_open_def split: option.splits)
  have q: "seq_ok (ssn s)" "seq_ok (rsn s)"
    using assms(2) by (simp_all add: can_write_def)
  let ?s2 = "send_frame (Some (init_frame_i (ssn s) (rsn s) C_CS_NA_1 act)) True s"
  note w = send_frame_act_write [OF assms(1) wr q, of C_CS_NA_1]
  have n: "send_list ?s2 \<noteq> []"
    unfolding w by (simp add: send_list_append_def)
  have c: "send_acts [C_CS_NA_1, C_IC_NA_1, C_CI_NA_1] s
             = ?s2\<lparr>send_list := send_list ?s2
                      @ [init_frame_i (ssn ?s2) (rsn ?s2) C_IC_NA_1 act,
                         init_frame_i (ssn ?s2) (rsn ?s2) C_CI_NA_1 act]\<rparr>"
    using n by (simp add: send_frame_act_queue send_list_append_def)
  show ?thesis
    unfolding c w
    using assms(1) wr(1)
    by (simp add: send_list_append_def call_frames_def inc_ssn_def sent_of_def)
qed

lemma send_acts_fail:
  assumes "send_list s = []" "\<not> can_write s"
  shows "send_list (send_acts [t1', t2', t3'] s) = [] \<and>
         sent_of (send_acts [t1', t2', t3'] s) = sent_of s \<and>
         connected (send_acts [t1', t2', t3'] s) = False"
proof -
  let ?a = "disconnect True (stop_timer T2 s)"
  let ?b = "disconnect True (stop_timer T2 ?a)"
  let ?c = "disconnect True (stop_timer T2 ?b)"
  have a: "send_frame (Some (init_frame_i (ssn s) (rsn s) t1' act)) True s = ?a"
    using assms by (rule send_frame_act_fail)
  have fa: "send_list ?a = []" "\<not> can_write ?a" by simp_all
  have b: "send_frame (Some (init_frame_i (ssn ?a) (rsn ?a) t2' act)) True ?a = ?b"
    using fa by (rule send_frame_act_fail)
  have fb: "send_list ?b = []" "\<not> can_write ?b" by simp_all
  have c: "send_frame (Some (init_frame_i (ssn ?b) (rsn ?b) t3' act)) True ?b = ?c"
    using fb by (rule send_frame_act_fail)
  have "send_acts [t1', t2', t3'] s = ?c"
    by (simp only: send_acts.simps a b c)
  then show ?thesis by simp
qed

lemma rearm_task_facts:
  assumes "last_call_all_time_end s = Some t"
  shows "send_list (rearm_task now s) = send_list s"
    and "sent_of (rearm_task now s) = sent_of s"
    and "last_call_all_time_begin (rearm_task now s) = last_call_all_time_begin s"
    and "connected (rearm_task now s) = connected s"
    and "ssn (rearm_task now s) = ssn s"
    and "handles (rearm_task now s) \<noteq> []"
    and "task_handler (rearm_task now s) = Some (length (handles (rearm_task now s)) - 1)"
    and "last (handles (rearm_task now s))
           = \<lparr>delay = timedelta_seconds (t + coll_interval s - now),
              callback = CB_run_task, cancelled = False\<rparr>"
    and "valid_handle (task_handler s) s \<Longrightarrow> stopped (task_handler s) (rearm_task now s)"
proof -
  let ?s1 = "case task_handler s of None \<Rightarrow> s | Some h \<Rightarrow> cancel h s"
  let ?new = "\<lparr>delay = timedelta_seconds (t + coll_interval s - now),
               callback = CB_run_task, cancelled = False\<rparr>"
  have e: "last_call_all_time_end ?s1 = Some t" "coll_interval ?s1 = coll_interval s"
    using assms by (simp_all split: option.splits)
  have r: "rearm_task now s
             = (snd (call_later (timedelta_seconds (t + coll_interval s - now)) CB_run_task ?s1))
                 \<lparr>task_handler := Some (length (handles ?s1))\<rparr>"
    using e by (simp add: rearm_task_def Let_def call_later_def)
  show "send_list (rearm_task now s) = send_list s"
    "sent_of (rearm_task now s) = sent_of s"
    "last_call_all_time_begin (rearm_task now s) = last_call_all_time_begin s"
    "connected (rearm_task now s) = connected s"
    "ssn (rearm_task now s) = ssn s"
    unfolding r by (simp_all add: call_later_def sent_of_def split: option.splits)
  have h: "handles (rearm_task now s) = handles ?s1 @ [?new]"
    unfolding r by (simp add: call_later_def)
  show "handles (rearm_task now s) \<noteq> []"
    "task_handler (rearm_task now s) = Some (length (handles (rearm_task now s)) - 1)"
    "last (handles (rearm_task now s)) = ?new"
    using h by (simp_all add: r)
  show "stopped (task_handler s) (rearm_task now s)" if v: "valid_handle (task_handler s) s"
  proof (cases "task_handler s")
    case None
    then show ?thesis by (simp add: stopped_def)
  next
    case (Some x)
    have "stopped (Some x) (cancel x s)"
      using v Some by (simp add: valid_handle_def stopped_def cancel_def)
    moreover have "handles_le (cancel x s) (rearm_task now s)"
      unfolding r using Some by simp
    ultimately show ?thesis using Some stopped_mono by simp
  qed
qed

text \<open>
  C8. \<^verbatim>\<open>run_task\<close> runs at \<open>now\<close>, and \<open>end0\<close> is \<open>last_call_all_time_end\<close>, or \<open>now\<close> when
  that is not set, with \<open>end0 + coll_interval \<le> now\<close>. Then \<open>last_call_all_time_begin\<close> is
  set to \<open>now\<close>, and exactly three I-frames with the cause \<open>act\<close> are handed to
  \<^verbatim>\<open>send_frame\<close>, in the order C_CS_NA_1, C_IC_NA_1, C_CI_NA_1, each built from the
  sequence numbers the device has at that moment; only then is the handle of
  \<open>task_handler\<close> cancelled and the next run scheduled, on a new live handle, the last of
  the loop. What the three sends leave behind: nothing written before is lost; if
  \<open>send_list\<close> was not empty the three frames are appended to it and nothing is written;
  if it was empty and the writer can write, the clock synchronisation is written and the
  three frames are in \<open>send_list\<close>, the two interrogations with the send number after
  it; if it was empty and the writer cannot write, the session is disconnected, with
  nothing written and an empty \<open>send_list\<close>.
\<close>

theorem run_task_sends_three:
  assumes "end0 = (case last_call_all_time_end s of None \<Rightarrow> now | Some t \<Rightarrow> t)"
    and "end0 + coll_interval s \<le> now"
  shows "run_task now s
           = rearm_task now
               (send_acts [C_CS_NA_1, C_IC_NA_1, C_CI_NA_1]
                  (s\<lparr>last_call_all_time_end := Some end0,
                      last_call_all_time_begin := Some now\<rparr>)) \<and>
         last_call_all_time_begin (run_task now s) = Some now \<and>
         take (length (sent_of s)) (sent_of (run_task now s)) = sent_of s \<and>
         (send_list s \<noteq> [] \<longrightarrow>
            send_list (run_task now s) = send_list s @ call_frames (ssn s) (ssn s) (rsn s) \<and>
            written s (run_task now s) = []) \<and>
         (send_list s = [] \<and> can_write s \<longrightarrow>
            send_list (run_task now s) = call_frames (ssn s) (ssn (run_task now s)) (rsn s) \<and>
            written s (run_task now s) = [init_frame_i (ssn s) (rsn s) C_CS_NA_1 act]) \<and>
         (send_list s = [] \<and> \<not> can_write s \<longrightarrow>
            send_list (run_task now s) = [] \<and> written s (run_task now s) = [] \<and>
            connected (run_task now s) = False) \<and>
         (valid_handle (task_handler s) s \<longrightarrow> stopped (task_handler s) (run_task now s)) \<and>
         handles (run_task now s) \<noteq> [] \<and>
         task_handler (run_task now s) = Some (length (handles (run_task now s)) - 1) \<and>
         last (handles (run_task now s))
           = \<lparr>delay = timedelta_seconds (end0 + coll_interval s - now),
              callback = CB_run_task, cancelled = False\<rparr>"
proof -
  let ?s1 = "s\<lparr>last_call_all_time_end := Some end0, last_call_all_time_begin := Some now\<rparr>"
  let ?x = "send_acts [C_CS_NA_1, C_IC_NA_1, C_CI_NA_1] ?s1"
  have r: "run_task now s = rearm_task now ?x"
    using assms by (simp add: run_task_def Let_def call_all_send_acts)
  have e: "last_call_all_time_end ?x = Some end0" by (simp del: send_acts.simps)
  have ci: "coll_interval ?x = coll_interval s" by (simp del: send_acts.simps)
  note rf = rearm_task_facts [OF e, of now]
  have f1: "sent_of ?s1 = sent_of s" "send_list ?s1 = send_list s" "ssn ?s1 = ssn s"
    "rsn ?s1 = rsn s" "can_write ?s1 = can_write s"
    by (simp_all add: can_write_def writer_open_def)
  have "sent_ext ?s1 ?x" by (rule sent_ext_send_acts) simp
  then have "sent_ext s ?x" unfolding sent_ext_def f1(1) .
  then have tk: "take (length (sent_of s)) (sent_of ?x) = sent_of s"
    using sent_ext_no_s by blast
  have q: "send_list ?x = send_list s @ call_frames (ssn s) (ssn s) (rsn s) \<and> sent_of ?x = sent_of s"
    if "send_list s \<noteq> []"
    using that by (simp add: send_acts_queue call_frames_def sent_of_def del: send_acts.simps)
  have w: "send_list ?x = call_frames (ssn s) (ssn ?x) (rsn s) \<and>
           sent_of ?x = sent_of s @ [init_frame_i (ssn s) (rsn s) C_CS_NA_1 act]"
    if "send_list s = []" "can_write s"
    using that send_acts_write [of ?s1] f1 by (simp del: send_acts.simps)
  have fl: "send_list ?x = [] \<and> sent_of ?x = sent_of s \<and> connected ?x = False"
    if "send_list s = []" "\<not> can_write s"
    using that send_acts_fail [of ?s1 C_CS_NA_1 C_IC_NA_1 C_CI_NA_1] f1
    by (simp del: send_acts.simps)
  have hl: "handles_le s ?x"
    by (rule handles_le_send_acts) (simp add: handles_le_def)
  have st: "stopped (task_handler s) (rearm_task now ?x)" if "valid_handle (task_handler s) s"
    using rf(9) valid_handle_mono [OF that hl] by (simp del: send_acts.simps)
  show ?thesis
    unfolding r
    using rf(1-8) tk q w fl st by (simp add: written_def ci del: send_acts.simps)
qed

text \<open>The theorem at \<open>started_device\<close>, whose queue is empty, at \<open>busy_device\<close>, where a
  frame waits for its confirmation, and at \<open>started_device\<close> after a disconnect, whose
  writer is closed.\<close>

theorem run_task_sends_three_witness:
  "last_call_all_time_end started_device = Some 0 \<and>
   0 + coll_interval started_device \<le> 900000000 \<and>
   send_list started_device = [] \<and> can_write started_device \<and>
   task_handler started_device = Some 3 \<and>
   valid_handle (task_handler started_device) started_device \<and>
   last_call_all_time_begin (run_task 900000000 started_device) = Some 900000000 \<and>
   send_list (run_task 900000000 started_device) = call_frames 0 1 0 \<and>
   written started_device (run_task 900000000 started_device)
     = [init_frame_i 0 0 C_CS_NA_1 act] \<and>
   stopped (Some 3) (run_task 900000000 started_device) \<and>
   task_handler (run_task 900000000 started_device) = Some 5 \<and>
   last (handles (run_task 900000000 started_device))
     = \<lparr>delay = 0, callback = CB_run_task, cancelled = False\<rparr> \<and>
   length (send_list busy_device) = 1 \<and>
   written busy_device (run_task 900000000 busy_device) = [] \<and>
   send_list (run_task 900000000 busy_device) = send_list busy_device @ call_frames 1 1 1 \<and>
   send_list (disconnect True started_device) = [] \<and>
   \<not> can_write (disconnect True started_device) \<and>
   send_list (run_task 900000000 (disconnect True started_device)) = [] \<and>
   written (disconnect True started_device) (run_task 900000000 (disconnect True started_device))
     = [] \<and>
   connected (run_task 900000000 (disconnect True started_device)) = False"
proof -
  have a: "0 = (case last_call_all_time_end started_device of None \<Rightarrow> 900000000 | Some t \<Rightarrow> t)"
    "0 + coll_interval started_device \<le> 900000000"
    by code_simp+
  have b: "0 = (case last_call_all_time_end busy_device of None \<Rightarrow> 900000000 | Some t \<Rightarrow> t)"
    "0 + coll_interval busy_device \<le> 900000000"
    by code_simp+
  have d: "0 = (case last_call_all_time_end (disconnect True started_device) of
                  None \<Rightarrow> 900000000 | Some t \<Rightarrow> t)"
    "0 + coll_interval (disconnect True started_device) \<le> 900000000"
    by code_simp+
  have c: "last_call_all_time_end started_device = Some 0"
    "task_handler started_device = Some 3" "send_list started_device = []"
    "can_write started_device"
    "valid_handle (task_handler started_device) started_device"
    "ssn started_device = 0" "rsn started_device = 0"
    "coll_interval started_device = 900000000"
    "ssn (run_task 900000000 started_device) = 1"
    "length (handles (run_task 900000000 started_device)) = 6"
    "length (send_list busy_device) = 1" "send_list busy_device \<noteq> []"
    "ssn busy_device = 1" "rsn busy_device = 1"
    "send_list (disconnect True started_device) = []"
    "\<not> can_write (disconnect True started_device)"
    by code_simp+
  show ?thesis
    using c run_task_sends_three [OF a, THEN conjunct2]
      run_task_sends_three [OF b, THEN conjunct2] run_task_sends_three [OF d, THEN conjunct2]
    by (simp add: timedelta_seconds_def)
qed

end
